theory Spec2Isabelle
  imports Main
begin

section \<open>Strings and paths\<close>

text \<open>
  JavaScript values that the servers test for truthiness are modelled as
  \<open>string option\<close>: \<open>None\<close> stands for \<open>undefined\<close>/\<open>null\<close>, and the empty string
  is falsy as well.
\<close>

definition truthy :: "string option \<Rightarrow> bool" where
  "truthy v = (case v of None \<Rightarrow> False | Some s \<Rightarrow> s \<noteq> [])"

text \<open>\<open>String.prototype.toLowerCase\<close>, on the ASCII letters.\<close>

definition lower_char :: "char \<Rightarrow> char" where
  "lower_char c =
     (case map_of (zip ''ABCDEFGHIJKLMNOPQRSTUVWXYZ'' ''abcdefghijklmnopqrstuvwxyz'') c of
        None \<Rightarrow> c
      | Some d \<Rightarrow> d)"

definition toLowerCase :: "string \<Rightarrow> string" where
  "toLowerCase s = map lower_char s"

text \<open>
  \<open>path.extname\<close> of Node (POSIX flavour): the last path component, trailing
  slashes ignored, from its last dot to its end; empty when the component has no dot,
  when the last dot is its first character, or when the component is \<open>..\<close>.
\<close>

definition last_component :: "string \<Rightarrow> string" where
  "last_component p =
     rev (takeWhile (\<lambda>c. c \<noteq> CHR ''/'') (dropWhile (\<lambda>c. c = CHR ''/'') (rev p)))"

definition extname :: "string \<Rightarrow> string" where
  "extname p =
     (let b = last_component p;
          after_dot = rev (takeWhile (\<lambda>c. c \<noteq> CHR ''.'') (rev b))
      in if CHR ''.'' \<notin> set b then []
         else if Suc (length after_dot) = length b then []
         else if b = ''..'' then []
         else CHR ''.'' # after_dot)"

section \<open>File system\<close>

record disk_file =
  fsize :: nat
  fdata :: string

type_synonym filesystem = "string \<Rightarrow> disk_file option"

text \<open>
  Values thrown by the servers: \<open>new Error(msg)\<close> and \<open>new McpError(code, msg)\<close>. The
  constructor of \<open>McpError\<close> (in the protocol library) passes
  \<open>`MCP error ${code}: ${message}`\<close> to \<open>Error\<close>, so that is what \<open>error.message\<close> reads; the
  codes are those of JSON-RPC.
\<close>

datatype error_code = InvalidRequest | MethodNotFound | InternalError

datatype js_error = Error string | McpError error_code string

fun code_text :: "error_code \<Rightarrow> string" where
  "code_text InvalidRequest = ''-32600''"
| "code_text MethodNotFound = ''-32601''"
| "code_text InternalError = ''-32603''"

fun message :: "js_error \<Rightarrow> string" where
  "message (Error m) = m"
| "message (McpError c m) = ''MCP error '' @ code_text c @ '': '' @ m"

text \<open>A path as Node quotes it in the message of a file-system error.\<close>

definition quoted :: "string \<Rightarrow> string" where
  "quoted p = [CHR 0x27] @ p @ [CHR 0x27]"

definition existsSync :: "filesystem \<Rightarrow> string \<Rightarrow> bool" where
  "existsSync fs p = (fs p \<noteq> None)"

definition readFileSync :: "filesystem \<Rightarrow> string \<Rightarrow> js_error + string" where
  "readFileSync fs p =
     (case fs p of
        None \<Rightarrow> Inl (Error (''ENOENT: no such file or directory, open '' @ quoted p))
      | Some f \<Rightarrow> Inr (fdata f))"

definition unlinkSync :: "filesystem \<Rightarrow> string \<Rightarrow> js_error + filesystem" where
  "unlinkSync fs p =
     (case fs p of
        None \<Rightarrow> Inl (Error (''ENOENT: no such file or directory, unlink '' @ quoted p))
      | Some f \<Rightarrow> Inr (fs(p := None)))"

section \<open>Video validation\<close>

text \<open>\<open>SUPPORTED_FORMATS\<close> and \<open>MAX_FILE_SIZE\<close> of remote-server.js and of the stdio server.\<close>

definition SUPPORTED_FORMATS :: "(string \<times> string) list" where
  "SUPPORTED_FORMATS =
     [(''.mp4'', ''video/mp4''),
      (''.webm'', ''video/webm''),
      (''.mov'', ''video/quicktime''),
      (''.avi'', ''video/x-msvideo''),
      (''.mkv'', ''video/x-matroska'')]"

definition MAX_FILE_SIZE :: nat where
  "MAX_FILE_SIZE = 100 * 1024 * 1024"

definition not_found_message :: "string \<Rightarrow> string" where
  "not_found_message p = ''File not found: '' @ p"

definition unsupported_format_message :: string where
  "unsupported_format_message =
     ''Unsupported file format. Supported formats: .mp4, .webm, .mov, .avi, .mkv''"

definition too_large_message :: string where
  "too_large_message = ''File too large. Maximum size: 100MB''"

text \<open>
  \<open>validateVideoFile\<close> (remote-server.js, lines 118-135): existence, then the extension
  table, then the size; every failure is a thrown \<open>Error\<close>. The keys of the table all
  start with a dot, as every non-empty result of \<open>path.extname\<close> does, so the lookup never
  meets an inherited property of the object.
\<close>

definition validateVideoFile :: "filesystem \<Rightarrow> string \<Rightarrow> js_error + string" where
  "validateVideoFile fs filePath =
     (case fs filePath of
        None \<Rightarrow> Inl (Error (not_found_message filePath))
      | Some f \<Rightarrow>
          (case map_of SUPPORTED_FORMATS (toLowerCase (extname filePath)) of
             None \<Rightarrow> Inl (Error unsupported_format_message)
           | Some mimeType \<Rightarrow>
               if fsize f > MAX_FILE_SIZE then Inl (Error too_large_message)
               else Inr mimeType))"

text \<open>
  The stdio server's \<open>validateVideoFile\<close> (src/unnamed/part_002, lines 155-172) runs the
  same three checks and throws \<open>McpError(ErrorCode.InvalidRequest, ...)\<close>, whose message
  carries the prefix of \<open>McpError\<close>.
\<close>

definition stdio_validateVideoFile :: "filesystem \<Rightarrow> string \<Rightarrow> js_error + string" where
  "stdio_validateVideoFile fs filePath =
     (case fs filePath of
        None \<Rightarrow> Inl (McpError InvalidRequest (not_found_message filePath))
      | Some f \<Rightarrow>
          (case map_of SUPPORTED_FORMATS (toLowerCase (extname filePath)) of
             None \<Rightarrow> Inl (McpError InvalidRequest unsupported_format_message)
           | Some mimeType \<Rightarrow>
               if fsize f > MAX_FILE_SIZE
               then Inl (McpError InvalidRequest too_large_message)
               else Inr mimeType))"

text \<open>
  mcp-server.js (lines 92-108) and the plain Express server (the second program in
  src/remote-server.js, lines 853-869) have no validator: \<open>analyzeVideo\<close> picks the MIME
  type by a switch on the lower-cased extension whose default branch is \<open>video/mp4\<close>.
\<close>

definition mime_switch :: "string \<Rightarrow> string" where
  "mime_switch videoPath =
     (let ext = toLowerCase (extname videoPath)
      in if ext = ''.mp4'' then ''video/mp4''
         else if ext = ''.webm'' then ''video/webm''
         else if ext = ''.mov'' then ''video/quicktime''
         else ''video/mp4'')"

section \<open>Analysis engine\<close>

record video_part =
  inline_data :: string
  inline_mimeType :: string

text \<open>
  \<open>fileToGenerativePart\<close>: reads the file and tags it with the MIME type. The base64
  text of the buffer is represented by the buffer itself.
\<close>

definition fileToGenerativePart :: "filesystem \<Rightarrow> string \<Rightarrow> string \<Rightarrow> js_error + video_part" where
  "fileToGenerativePart fs filePath mimeType =
     (case readFileSync fs filePath of
        Inl e \<Rightarrow> Inl e
      | Inr buf \<Rightarrow> Inr \<lparr>inline_data = buf, inline_mimeType = mimeType\<rparr>)"

text \<open>
  The outcome of an \<open>await\<close>: the promise settles (it resolves, or it rejects with an
  error), or it never does. No server sets a timeout on a download or on a provider
  call, so a peer that stops answering leaves the \<open>await\<close> pending for ever, and nothing
  that follows it in the function runs.
\<close>

datatype 'a awaited = Settled 'a | Never

text \<open>
  The provider (\<open>model.generateContent\<close> followed by \<open>response.text()\<close>) is outside the
  repository. It is a parameter: given the number of calls already issued by this
  analysis, the prompt and the video part, it throws, yields the text, or never
  answers.
\<close>

type_synonym provider = "nat \<Rightarrow> string \<Rightarrow> video_part \<Rightarrow> (js_error + string) awaited"

record analysis_entry =
  prompt :: string
  analysis :: string

record AnalysisResult =
  success :: bool
  results :: "analysis_entry list option"
  error :: "string option"

definition defaultPrompts :: "string list" where
  "defaultPrompts =
     [''Describe the video in detail, including what's happening and the main subject matter.'',
      ''What is the quality of the video recording and audio?'',
      ''Are there any areas where the video could be improved?'',
      ''Analyze the pacing and content organization of the video.'',
      ''How well does this video meet typical user expectations for this type of content?'']"

text \<open>\<open>const prompts = analysisPrompt ? [analysisPrompt] : defaultPrompts\<close>\<close>

definition select_prompts :: "string list \<Rightarrow> string option \<Rightarrow> string list" where
  "select_prompts defaults analysisPrompt =
     (case analysisPrompt of
        None \<Rightarrow> defaults
      | Some p \<Rightarrow> if p = [] then defaults else [p])"

text \<open>
  The \<open>for (const prompt of prompts)\<close> loop. \<open>calls\<close> records, in order, the prompts
  for which a provider call has been issued; a throwing call leaves the loop at once,
  and a call that never answers leaves it pending.
\<close>

fun prompt_loop ::
  "provider \<Rightarrow> video_part \<Rightarrow> string list \<Rightarrow> analysis_entry list \<Rightarrow> string list
     \<Rightarrow> (js_error + analysis_entry list) awaited \<times> string list" where
  "prompt_loop model videoPart [] res calls = (Settled (Inr res), calls)"
| "prompt_loop model videoPart (p # ps) res calls =
     (case model (length calls) p videoPart of
        Never \<Rightarrow> (Never, calls @ [p])
      | Settled (Inl e) \<Rightarrow> (Settled (Inl e), calls @ [p])
      | Settled (Inr answer) \<Rightarrow>
          prompt_loop model videoPart ps
            (res @ [\<lparr>prompt = p, analysis = answer\<rparr>]) (calls @ [p]))"

definition failure_result :: "js_error \<Rightarrow> AnalysisResult" where
  "failure_result e = \<lparr>success = False, results = None, error = Some (message e)\<rparr>"

text \<open>
  The part of the \<open>try\<close> block of \<open>analyzeVideo\<close> that follows the choice of the MIME
  type, with its \<open>catch\<close>; it reads the same in all four servers, the default prompt
  list apart.
\<close>

definition analysis_body ::
  "string list \<Rightarrow> filesystem \<Rightarrow> provider \<Rightarrow> string \<Rightarrow> string \<Rightarrow> string option
     \<Rightarrow> AnalysisResult awaited \<times> string list" where
  "analysis_body defaults fs model videoPath mimeType analysisPrompt =
     (case fileToGenerativePart fs videoPath mimeType of
        Inl e \<Rightarrow> (Settled (failure_result e), [])
      | Inr videoPart \<Rightarrow>
          (case prompt_loop model videoPart (select_prompts defaults analysisPrompt) [] [] of
             (Never, calls) \<Rightarrow> (Never, calls)
           | (Settled (Inl e), calls) \<Rightarrow> (Settled (failure_result e), calls)
           | (Settled (Inr res), calls) \<Rightarrow>
               (Settled \<lparr>success = True, results = Some res, error = None\<rparr>, calls)))"

text \<open>
  What the caller of an async function gets when the function returns the value that
  its \<open>try\<close> block or its \<open>catch\<close> block produced.
\<close>

definition returned :: "'a awaited \<times> 'c \<Rightarrow> ('e + 'a) awaited \<times> 'c" where
  "returned a = (case a of (Never, c) \<Rightarrow> (Never, c) | (Settled r, c) \<Rightarrow> (Settled (Inr r), c))"

definition api_key_required_message :: string where
  "api_key_required_message = ''Google API key is required for video analysis''"

text \<open>
  \<open>analyzeVideo\<close> of remote-server.js (lines 137-193). The result is what the call
  throws (\<open>Inl\<close>) or returns (\<open>Inr\<close>) when it settles, paired with the provider calls it
  issued. Writing the log is left out.
\<close>

definition remote_analyzeVideo ::
  "string option \<Rightarrow> filesystem \<Rightarrow> provider \<Rightarrow> string \<Rightarrow> string option
     \<Rightarrow> (js_error + AnalysisResult) awaited \<times> string list" where
  "remote_analyzeVideo GOOGLE_API_KEY fs model videoPath analysisPrompt =
     (if \<not> truthy GOOGLE_API_KEY then (Settled (Inl (Error api_key_required_message)), [])
      else
        (case validateVideoFile fs videoPath of
           Inl e \<Rightarrow> (Settled (Inr (failure_result e)), [])
         | Inr mimeType \<Rightarrow>
             returned (analysis_body defaultPrompts fs model videoPath mimeType
                         analysisPrompt)))"

text \<open>\<open>analyzeVideo\<close> of mcp-server.js (the SSE server; lines 87-160).\<close>

definition mcp_analyzeVideo ::
  "string option \<Rightarrow> filesystem \<Rightarrow> provider \<Rightarrow> string \<Rightarrow> string option
     \<Rightarrow> (js_error + AnalysisResult) awaited \<times> string list" where
  "mcp_analyzeVideo googleApiKey fs model videoPath analysisPrompt =
     (if \<not> truthy googleApiKey
      then (Settled (Inl (McpError InvalidRequest api_key_required_message)), [])
      else
        returned (analysis_body defaultPrompts fs model videoPath (mime_switch videoPath)
                    analysisPrompt))"

text \<open>\<open>analyzeVideo\<close> of the stdio server (src/unnamed/part_002, lines 185-243).\<close>

definition stdio_analyzeVideo ::
  "string option \<Rightarrow> filesystem \<Rightarrow> provider \<Rightarrow> string \<Rightarrow> string option
     \<Rightarrow> (js_error + AnalysisResult) awaited \<times> string list" where
  "stdio_analyzeVideo googleApiKey fs model videoPath analysisPrompt =
     (if \<not> truthy googleApiKey
      then (Settled (Inl (McpError InvalidRequest api_key_required_message)), [])
      else
        (case stdio_validateVideoFile fs videoPath of
           Inl e \<Rightarrow> (Settled (Inr (failure_result e)), [])
         | Inr mimeType \<Rightarrow>
             returned (analysis_body defaultPrompts fs model videoPath mimeType
                         analysisPrompt)))"

text \<open>
  \<open>analyzeVideo\<close> of the plain Express server (src/remote-server.js, lines 849-920): no
  credential check in the function, the MIME switch, and a default prompt list of its
  own. It never throws.
\<close>

definition express_defaultPrompts :: "string list" where
  "express_defaultPrompts =
     [''Analyze this video and provide a detailed timeline of key moments. For each important moment, scene change, or significant event, specify the approximate timestamp in seconds. Include: 1) A description of what happens at each moment, 2) The specific timestamp (in seconds) when it occurs, 3) Why this moment is significant or visually interesting. Format your response with clear timestamps like 'At 0s:', 'At 15s:', etc.'',
      ''Identify 5-10 of the most visually interesting or important frames in this video that would make good screenshots. For each frame, provide: 1) The exact timestamp in seconds, 2) What makes this frame significant, 3) What visual elements are present. Format timestamps clearly as numbers in seconds.'',
      ''Analyze the video's structure and identify timestamps for: 1) The opening/introduction, 2) Key transitions between topics or scenes, 3) Important moments showing the main subject matter, 4) The conclusion. Provide specific timestamps in seconds for each.'',
      ''Review this video and suggest optimal timestamps (in seconds) where screenshots should be captured to create a comprehensive visual summary. Aim for 6-12 timestamps that together tell the story of the video.'',
      ''Identify any moments in the video that contain: text overlays, important visual information, key demonstrations, or significant events. For each, provide the timestamp in seconds and describe what should be captured in a screenshot.'']"

definition express_analyzeVideo ::
  "filesystem \<Rightarrow> provider \<Rightarrow> string \<Rightarrow> string option
     \<Rightarrow> AnalysisResult awaited \<times> string list" where
  "express_analyzeVideo fs model videoPath analysisPrompt =
     analysis_body express_defaultPrompts fs model videoPath (mime_switch videoPath)
       analysisPrompt"

section \<open>Temporary assets\<close>

text \<open>
  \<open>downloadFile\<close> (the same text in every server). The network is a parameter: \<open>fetch\<close>
  rejects, never settles (\<open>FetchPending\<close>), or resolves with a response (its \<open>ok\<close> flag
  and status text) whose body streams completely, breaks off after some bytes with an
  error, or stalls after some bytes without ever ending. \<open>fs.createWriteStream\<close> creates
  the output file as soon as the pipeline starts, so a body that breaks off or stalls
  leaves the bytes written so far on disk.
\<close>

datatype body_stream = Complete string | Broken string string | Stalled string

datatype fetch_result = FetchRejected string | FetchPending | Response bool string body_stream

type_synonym network = "string \<Rightarrow> fetch_result"

definition downloadFile ::
  "network \<Rightarrow> filesystem \<Rightarrow> string \<Rightarrow> string
     \<Rightarrow> (js_error + string) awaited \<times> filesystem" where
  "downloadFile net fs url outputPath =
     (case net url of
        FetchRejected m \<Rightarrow> (Settled (Inl (Error m)), fs)
      | FetchPending \<Rightarrow> (Never, fs)
      | Response ok statusText body \<Rightarrow>
          if \<not> ok
          then (Settled (Inl (Error (''Failed to download file: '' @ statusText))), fs)
          else
            (case body of
               Complete d \<Rightarrow>
                 (Settled (Inr outputPath),
                  fs(outputPath \<mapsto> \<lparr>fsize = length d, fdata = d\<rparr>))
             | Broken d m \<Rightarrow>
                 (Settled (Inl (Error m)),
                  fs(outputPath \<mapsto> \<lparr>fsize = length d, fdata = d\<rparr>))
             | Stalled d \<Rightarrow>
                 (Never, fs(outputPath \<mapsto> \<lparr>fsize = length d, fdata = d\<rparr>))))"

text \<open>
  The fetches on which \<open>downloadFile\<close> settles: all but a fetch that stays pending and
  an accepted response whose body stalls (a response that is not \<open>ok\<close> is refused before
  its body is read).
\<close>

fun download_settles :: "fetch_result \<Rightarrow> bool" where
  "download_settles FetchPending = False"
| "download_settles (Response ok statusText (Stalled d)) = (\<not> ok)"
| "download_settles (Response ok statusText (Complete d)) = True"
| "download_settles (Response ok statusText (Broken d m)) = True"
| "download_settles (FetchRejected m) = True"

text \<open>\<open>if (fs.existsSync(tempFilePath)) { fs.unlinkSync(tempFilePath); }\<close>\<close>

definition unlink_if_exists :: "filesystem \<Rightarrow> string \<Rightarrow> js_error + filesystem" where
  "unlink_if_exists fs p = (if existsSync fs p then unlinkSync fs p else Inr fs)"

text \<open>
  The \<open>catch\<close> block of the URL operations that clean up and rethrow (or answer with
  the error): the caught error leaves the block unless the deletion itself throws.
\<close>

definition cleanup_catch :: "js_error \<Rightarrow> filesystem \<Rightarrow> string \<Rightarrow> js_error \<times> filesystem" where
  "cleanup_catch e fs tempFilePath =
     (case unlink_if_exists fs tempFilePath of
        Inl e' \<Rightarrow> (e', fs)
      | Inr fs' \<Rightarrow> (e, fs'))"

text \<open>The error with which the block settles after its \<open>catch\<close> has run.\<close>

definition rethrown ::
  "js_error \<Rightarrow> filesystem \<Rightarrow> string \<Rightarrow> (js_error + AnalysisResult) awaited \<times> filesystem" where
  "rethrown e fs tempFilePath =
     (case cleanup_catch e fs tempFilePath of (e', fs') \<Rightarrow> (Settled (Inl e'), fs'))"

text \<open>
  The \<open>try\<close>/\<open>catch\<close> around download, analysis and deletion as remote-server.js writes
  it four times: in \<open>/api/analyze/url\<close> (lines 332-353), \<open>/mcp\<close> (452-466),
  \<open>/api/mcp/call\<close> (556-570) and the WebSocket \<open>call_tool\<close> (671-682). \<open>Inl\<close> is the error
  that reaches the end of the \<open>catch\<close> block. When the download or the analysis never
  settles, neither the deletion nor the \<open>catch\<close> block runs.
\<close>

definition remote_url_block ::
  "string option \<Rightarrow> network \<Rightarrow> provider \<Rightarrow> filesystem \<Rightarrow> string \<Rightarrow> string \<Rightarrow> string option
     \<Rightarrow> (js_error + AnalysisResult) awaited \<times> filesystem" where
  "remote_url_block GOOGLE_API_KEY net model fs video_url tempFilePath analysis_prompt =
     (case downloadFile net fs video_url tempFilePath of
        (Never, fs1) \<Rightarrow> (Never, fs1)
      | (Settled (Inl e), fs1) \<Rightarrow> rethrown e fs1 tempFilePath
      | (Settled (Inr _), fs1) \<Rightarrow>
          (case fst (remote_analyzeVideo GOOGLE_API_KEY fs1 model tempFilePath analysis_prompt) of
             Never \<Rightarrow> (Never, fs1)
           | Settled (Inl e) \<Rightarrow> rethrown e fs1 tempFilePath
           | Settled (Inr result) \<Rightarrow>
               (case unlink_if_exists fs1 tempFilePath of
                  Inl e \<Rightarrow> rethrown e fs1 tempFilePath
                | Inr fs2 \<Rightarrow> (Settled (Inr result), fs2))))"

text \<open>
  The same block in the stdio server (src/unnamed/part_002, lines 360-374, with its own
  \<open>analyzeVideo\<close>), and in mcp-server.js (lines 291-314), where the \<open>try\<close> block deletes
  without asking whether the file exists.
\<close>

definition stdio_url_block ::
  "string option \<Rightarrow> network \<Rightarrow> provider \<Rightarrow> filesystem \<Rightarrow> string \<Rightarrow> string \<Rightarrow> string option
     \<Rightarrow> (js_error + AnalysisResult) awaited \<times> filesystem" where
  "stdio_url_block googleApiKey net model fs video_url tempFilePath urlPrompt =
     (case downloadFile net fs video_url tempFilePath of
        (Never, fs1) \<Rightarrow> (Never, fs1)
      | (Settled (Inl e), fs1) \<Rightarrow> rethrown e fs1 tempFilePath
      | (Settled (Inr _), fs1) \<Rightarrow>
          (case fst (stdio_analyzeVideo googleApiKey fs1 model tempFilePath urlPrompt) of
             Never \<Rightarrow> (Never, fs1)
           | Settled (Inl e) \<Rightarrow> rethrown e fs1 tempFilePath
           | Settled (Inr result) \<Rightarrow>
               (case unlink_if_exists fs1 tempFilePath of
                  Inl e \<Rightarrow> rethrown e fs1 tempFilePath
                | Inr fs2 \<Rightarrow> (Settled (Inr result), fs2))))"

definition mcp_url_block ::
  "string option \<Rightarrow> network \<Rightarrow> provider \<Rightarrow> filesystem \<Rightarrow> string \<Rightarrow> string \<Rightarrow> string option
     \<Rightarrow> (js_error + AnalysisResult) awaited \<times> filesystem" where
  "mcp_url_block googleApiKey net model fs video_url tempFilePath urlPrompt =
     (case downloadFile net fs video_url tempFilePath of
        (Never, fs1) \<Rightarrow> (Never, fs1)
      | (Settled (Inl e), fs1) \<Rightarrow> rethrown e fs1 tempFilePath
      | (Settled (Inr _), fs1) \<Rightarrow>
          (case fst (mcp_analyzeVideo googleApiKey fs1 model tempFilePath urlPrompt) of
             Never \<Rightarrow> (Never, fs1)
           | Settled (Inl e) \<Rightarrow> rethrown e fs1 tempFilePath
           | Settled (Inr result) \<Rightarrow>
               (case unlinkSync fs1 tempFilePath of
                  Inl e \<Rightarrow> rethrown e fs1 tempFilePath
                | Inr fs2 \<Rightarrow> (Settled (Inr result), fs2))))"

section \<open>HTTP responses\<close>

record tool_descr =
  tool_name :: string
  tool_description :: string
  tool_properties :: "string list"
  tool_required :: "string list"

datatype response_body =
    ErrorBody string
  | FailureBody string
  | ResultBody AnalysisResult
  | ContentBody AnalysisResult
  | ToolsBody "tool_descr list"

datatype http_response = Respond nat response_body

text \<open>
  The plain Express server's \<open>POST /analyze_video_url\<close> (src/remote-server.js, lines
  956-988): the \<open>try\<close> block deletes the temporary file after the analysis; the \<open>catch\<close>
  block only answers. The handler answers nothing while an \<open>await\<close> is pending.
\<close>

definition express_analyze_video_url ::
  "network \<Rightarrow> provider \<Rightarrow> filesystem \<Rightarrow> string option \<Rightarrow> string \<Rightarrow> string option
     \<Rightarrow> http_response awaited \<times> filesystem" where
  "express_analyze_video_url net model fs video_url tempFilePath analysis_prompt =
     (case video_url of
        None \<Rightarrow> (Settled (Respond 400 (FailureBody ''Video URL is required'')), fs)
      | Some url \<Rightarrow>
          if url = []
          then (Settled (Respond 400 (FailureBody ''Video URL is required'')), fs)
          else
            (case downloadFile net fs url tempFilePath of
               (Never, fs1) \<Rightarrow> (Never, fs1)
             | (Settled (Inl e), fs1) \<Rightarrow>
                 (Settled (Respond 500 (FailureBody (message e))), fs1)
             | (Settled (Inr _), fs1) \<Rightarrow>
                 (case fst (express_analyzeVideo fs1 model tempFilePath analysis_prompt) of
                    Never \<Rightarrow> (Never, fs1)
                  | Settled result \<Rightarrow>
                      (case unlinkSync fs1 tempFilePath of
                         Inl e \<Rightarrow> (Settled (Respond 500 (FailureBody (message e))), fs1)
                       | Inr fs2 \<Rightarrow> (Settled (Respond 200 (ResultBody result)), fs2)))))"

section \<open>Authentication\<close>

text \<open>
  \<open>String.prototype.split\<close> with a non-empty separator: the pieces between successive
  occurrences of the separator, scanned from the left.
\<close>

fun split_from :: "string \<Rightarrow> string \<Rightarrow> string \<Rightarrow> string list" where
  "split_from sep acc [] = [rev acc]"
| "split_from sep acc (c # cs) =
     (if sep \<noteq> [] \<and> take (length sep) (c # cs) = sep
      then rev acc # split_from sep [] (drop (length sep - 1) cs)
      else split_from sep (c # acc) cs)"

definition js_split :: "string \<Rightarrow> string \<Rightarrow> string list" where
  "js_split s sep = split_from sep [] s"

text \<open>\<open>xs[1]\<close>, which is \<open>undefined\<close> on a list of fewer than two elements.\<close>

definition second :: "string list \<Rightarrow> string option" where
  "second xs = (case xs of a # b # rest \<Rightarrow> Some b | _ \<Rightarrow> None)"

definition first :: "string list \<Rightarrow> string option" where
  "first xs = (case xs of a # rest \<Rightarrow> Some a | _ \<Rightarrow> None)"

text \<open>
  The configuration constants of remote-server.js. \<open>jwt.verify(token, JWT_SECRET)\<close> is
  a parameter \<open>jwt_verify\<close>: the decoded claims, or \<open>None\<close> when verification throws.
\<close>

record config =
  ENABLE_AUTH :: bool
  API_KEY :: "string option"

record http_request =
  header_x_api_key :: "string option"
  query_api_key :: "string option"
  header_authorization :: "string option"

text \<open>\<open>req.headers['x-api-key'] || req.query.api_key\<close>\<close>

definition providedKey :: "http_request \<Rightarrow> string option" where
  "providedKey req =
     (if truthy (header_x_api_key req) then header_x_api_key req else query_api_key req)"

text \<open>\<open>req.headers.authorization?.split(' ')[1]\<close>\<close>

definition bearer_token :: "http_request \<Rightarrow> string option" where
  "bearer_token req =
     (case header_authorization req of
        None \<Rightarrow> None
      | Some h \<Rightarrow> second (js_split h '' ''))"

text \<open>\<open>if (token) { try { jwt.verify(token, JWT_SECRET) ... } catch ... }\<close>\<close>

definition verified_claims :: "(string \<Rightarrow> string option) \<Rightarrow> string option \<Rightarrow> string option" where
  "verified_claims jwt_verify token =
     (case token of
        None \<Rightarrow> None
      | Some t \<Rightarrow> if t = [] then None else jwt_verify t)"

datatype auth_outcome = Next "string option" | Unauthorized

text \<open>
  The \<open>authenticate\<close> middleware (remote-server.js, lines 222-255). \<open>Next u\<close> is the call
  of \<open>next()\<close>, with \<open>req.user\<close> set to the decoded claims when a token was verified;
  \<open>Unauthorized\<close> is the 401 answer.
\<close>

definition authenticate ::
  "config \<Rightarrow> (string \<Rightarrow> string option) \<Rightarrow> http_request \<Rightarrow> auth_outcome" where
  "authenticate cfg jwt_verify req =
     (if \<not> ENABLE_AUTH cfg then Next None
      else if truthy (API_KEY cfg) \<and> providedKey req = API_KEY cfg then Next None
      else
        (case verified_claims jwt_verify (bearer_token req) of
           Some decoded \<Rightarrow> Next (Some decoded)
         | None \<Rightarrow> if \<not> truthy (API_KEY cfg) then Next None else Unauthorized))"

text \<open>
  The WebSocket handshake (remote-server.js, lines 591-611) reads both credentials
  from the request URL: \<open>req.url.split('token=')[1]?.split('&')[0]\<close> and the same for
  \<open>api_key=\<close>.
\<close>

definition url_param :: "string \<Rightarrow> string \<Rightarrow> string option" where
  "url_param name url =
     (case second (js_split url name) of
        None \<Rightarrow> None
      | Some rest \<Rightarrow> first (js_split rest ''&''))"

definition ws_authenticated :: "config \<Rightarrow> (string \<Rightarrow> string option) \<Rightarrow> string \<Rightarrow> bool" where
  "ws_authenticated cfg jwt_verify url =
     (let token = url_param ''token='' url;
          apiKey = url_param ''api_key='' url
      in if truthy (API_KEY cfg) \<and> apiKey = API_KEY cfg then True
         else if truthy token then verified_claims jwt_verify token \<noteq> None
         else if \<not> truthy (API_KEY cfg) then True
         else False)"

section \<open>Tool discovery\<close>

text \<open>The tool list of remote-server.js (names, descriptions, argument names).\<close>

definition remote_tools :: "tool_descr list" where
  "remote_tools =
     [\<lparr>tool_name = ''analyze_video_file'',
       tool_description = ''Analyze a video file using Google's Gemini AI'',
       tool_properties = [''file_path'', ''analysis_prompt''],
       tool_required = [''file_path'']\<rparr>,
      \<lparr>tool_name = ''analyze_video_url'',
       tool_description = ''Download and analyze a video from URL'',
       tool_properties = [''video_url'', ''analysis_prompt''],
       tool_required = [''video_url'']\<rparr>]"

definition authentication_required :: string where
  "authentication_required = ''Authentication required''"

text \<open>
  \<open>app.post('/api/mcp/tools', authenticate, ...)\<close> (remote-server.js, lines 485-526). The
  rate limiter mounted on \<open>/api/\<close> runs before the handlers of that prefix; the
  definitions describe a request that it lets through.
\<close>

definition api_mcp_tools ::
  "config \<Rightarrow> (string \<Rightarrow> string option) \<Rightarrow> http_request \<Rightarrow> http_response" where
  "api_mcp_tools cfg jwt_verify req =
     (case authenticate cfg jwt_verify req of
        Unauthorized \<Rightarrow> Respond 401 (ErrorBody authentication_required)
      | Next u \<Rightarrow> Respond 200 (ToolsBody remote_tools))"

section \<open>Remote HTTP operations\<close>

type_synonym tool_args = "string \<Rightarrow> string option"

text \<open>\<open>args || {}\<close>, and the text a template literal gives a possibly undefined value.\<close>

definition or_empty :: "tool_args option \<Rightarrow> tool_args" where
  "or_empty args = (case args of None \<Rightarrow> (\<lambda>k. None) | Some a \<Rightarrow> a)"

definition js_str :: "string option \<Rightarrow> string" where
  "js_str v = (case v of None \<Rightarrow> ''undefined'' | Some s \<Rightarrow> s)"

text \<open>\<open>app.post('/api/analyze/url', authenticate, ...)\<close> (remote-server.js, lines 321-354)\<close>

definition api_analyze_url ::
  "config \<Rightarrow> (string \<Rightarrow> string option) \<Rightarrow> string option \<Rightarrow> network \<Rightarrow> provider \<Rightarrow> filesystem
     \<Rightarrow> string \<Rightarrow> http_request \<Rightarrow> string option \<Rightarrow> string option
     \<Rightarrow> http_response awaited \<times> filesystem" where
  "api_analyze_url cfg jwt_verify google_key net model fs tempFilePath req video_url
       analysis_prompt =
     (case authenticate cfg jwt_verify req of
        Unauthorized \<Rightarrow> (Settled (Respond 401 (ErrorBody authentication_required)), fs)
      | Next u \<Rightarrow>
          (case video_url of
             None \<Rightarrow> (Settled (Respond 400 (ErrorBody ''Video URL is required'')), fs)
           | Some url \<Rightarrow>
               if url = []
               then (Settled (Respond 400 (ErrorBody ''Video URL is required'')), fs)
               else
                 (case remote_url_block google_key net model fs url tempFilePath
                         analysis_prompt of
                    (Never, fs') \<Rightarrow> (Never, fs')
                  | (Settled (Inl e), fs') \<Rightarrow>
                      (Settled (Respond 500 (FailureBody (message e))), fs')
                  | (Settled (Inr result), fs') \<Rightarrow>
                      (Settled (Respond 200 (ResultBody result)), fs'))))"

text \<open>
  The tool dispatch shared by \<open>POST /mcp\<close> (\<open>tools/call\<close>) and \<open>POST /api/mcp/call\<close>:
  the \<open>switch\<close> on the tool name inside the handler's \<open>try\<close>, with the handler's
  \<open>catch\<close> turning a thrown error into the 500 answer.
\<close>

definition http_tool_switch ::
  "string option \<Rightarrow> network \<Rightarrow> provider \<Rightarrow> filesystem \<Rightarrow> string \<Rightarrow> string option
     \<Rightarrow> tool_args option \<Rightarrow> http_response awaited \<times> filesystem" where
  "http_tool_switch google_key net model fs tempFilePath toolName args =
     (if toolName = Some ''analyze_video_file'' then
        (if \<not> truthy (or_empty args ''file_path'')
         then (Settled (Respond 500 (ErrorBody ''file_path is required'')), fs)
         else
           (case fst (remote_analyzeVideo google_key fs model
                        (js_str (or_empty args ''file_path''))
                        (or_empty args ''analysis_prompt'')) of
              Never \<Rightarrow> (Never, fs)
            | Settled (Inl e) \<Rightarrow> (Settled (Respond 500 (ErrorBody (message e))), fs)
            | Settled (Inr result) \<Rightarrow> (Settled (Respond 200 (ContentBody result)), fs)))
      else if toolName = Some ''analyze_video_url'' then
        (if \<not> truthy (or_empty args ''video_url'')
         then (Settled (Respond 500 (ErrorBody ''video_url is required'')), fs)
         else
           (case remote_url_block google_key net model fs
                   (js_str (or_empty args ''video_url'')) tempFilePath
                   (or_empty args ''analysis_prompt'') of
              (Never, fs') \<Rightarrow> (Never, fs')
            | (Settled (Inl e), fs') \<Rightarrow> (Settled (Respond 500 (ErrorBody (message e))), fs')
            | (Settled (Inr result), fs') \<Rightarrow>
                (Settled (Respond 200 (ContentBody result)), fs')))
      else
        (Settled (Respond 404 (ErrorBody (''Tool '' @ js_str toolName @ '' not found''))),
         fs))"

text \<open>\<open>app.post('/mcp', authenticate, ...)\<close> (remote-server.js, lines 381-482)\<close>

definition mcp_post ::
  "config \<Rightarrow> (string \<Rightarrow> string option) \<Rightarrow> string option \<Rightarrow> network \<Rightarrow> provider \<Rightarrow> filesystem
     \<Rightarrow> string \<Rightarrow> http_request \<Rightarrow> string option \<Rightarrow> string option \<Rightarrow> tool_args option
     \<Rightarrow> http_response awaited \<times> filesystem" where
  "mcp_post cfg jwt_verify google_key net model fs tempFilePath req method toolName args =
     (case authenticate cfg jwt_verify req of
        Unauthorized \<Rightarrow> (Settled (Respond 401 (ErrorBody authentication_required)), fs)
      | Next u \<Rightarrow>
          if method = Some ''tools/list''
          then (Settled (Respond 200 (ToolsBody remote_tools)), fs)
          else if method = Some ''tools/call''
          then http_tool_switch google_key net model fs tempFilePath toolName args
          else
            (Settled (Respond 404 (ErrorBody (''Method '' @ js_str method @ '' not found''))),
             fs))"

text \<open>\<open>app.post('/api/mcp/call', authenticate, ...)\<close> (remote-server.js, lines 528-581)\<close>

definition api_mcp_call ::
  "config \<Rightarrow> (string \<Rightarrow> string option) \<Rightarrow> string option \<Rightarrow> network \<Rightarrow> provider \<Rightarrow> filesystem
     \<Rightarrow> string \<Rightarrow> http_request \<Rightarrow> string option \<Rightarrow> tool_args option
     \<Rightarrow> http_response awaited \<times> filesystem" where
  "api_mcp_call cfg jwt_verify google_key net model fs tempFilePath req tool args =
     (case authenticate cfg jwt_verify req of
        Unauthorized \<Rightarrow> (Settled (Respond 401 (ErrorBody authentication_required)), fs)
      | Next u \<Rightarrow>
          if \<not> truthy tool
          then (Settled (Respond 400 (ErrorBody ''Tool name is required'')), fs)
          else http_tool_switch google_key net model fs tempFilePath tool args)"

section \<open>WebSocket connection\<close>

datatype ws_message =
    ConnectedMsg
  | AuthRequiredMsg
  | ToolsMsg "tool_descr list"
  | ToolResultMsg "nat option" AnalysisResult
  | ErrorMsg "nat option" string
  | PongMsg

text \<open>
  \<open>wss.on('connection', ...)\<close> (remote-server.js, lines 586-733): whether the message
  handler is installed, and what the server sends at once (the confirmation, or the
  refusal before it closes the socket).
\<close>

definition ws_on_connection ::
  "config \<Rightarrow> (string \<Rightarrow> string option) \<Rightarrow> string \<Rightarrow> bool \<times> ws_message list" where
  "ws_on_connection cfg jwt_verify url =
     (if ENABLE_AUTH cfg \<and> \<not> ws_authenticated cfg jwt_verify url
      then (False, [AuthRequiredMsg])
      else (True, [ConnectedMsg]))"

text \<open>
  An inbound frame: text that \<open>JSON.parse\<close> rejects (with the parser's message), the
  JSON value \<open>null\<close>, or a value whose fields \<open>type\<close>, \<open>tool\<close>, \<open>arguments\<close> and \<open>id\<close> are read.
  A field that is missing is \<open>None\<close>, as is every field of a value that is not an object;
  \<open>type\<close> and \<open>tool\<close> are strings and \<open>id\<close> is a number when present. The \<open>arguments\<close> are
  missing, \<open>null\<close>, or a value whose properties are read (strings when present).
\<close>

datatype ws_arguments = ArgsUndefined | ArgsNull | ArgsFields tool_args

record ws_data =
  data_type :: "string option"
  data_tool :: "string option"
  data_arguments :: ws_arguments
  data_id :: "nat option"

datatype ws_payload = Unparseable string | ParsedNull | Parsed ws_data

text \<open>
  The message of the \<open>TypeError\<close> that reading a property of \<open>undefined\<close> or \<open>null\<close> throws
  (the wording of Node 18, the version the image is built on), and the message with
  which \<open>fetch\<close> rejects the URL \<open>undefined\<close>.
\<close>

definition type_error :: "string \<Rightarrow> string \<Rightarrow> string" where
  "type_error v property =
     ''Cannot read properties of '' @ v @ '' (reading '' @ quoted property @ '')''"

definition type_error_null :: string where
  "type_error_null = type_error ''null'' ''type''"

definition invalid_url_message :: string where
  "invalid_url_message = ''Only absolute URLs are supported''"

text \<open>
  \<open>analyzeVideo(args.file_path, ...)\<close> is called without a check of the path: on
  \<open>undefined\<close> the validator's \<open>fs.existsSync\<close> is false.
\<close>

definition remote_analyzeVideo_arg ::
  "string option \<Rightarrow> filesystem \<Rightarrow> provider \<Rightarrow> string option \<Rightarrow> string option
     \<Rightarrow> (js_error + AnalysisResult) awaited \<times> string list" where
  "remote_analyzeVideo_arg google_key fs model file_path analysis_prompt =
     (case file_path of
        Some p \<Rightarrow> remote_analyzeVideo google_key fs model p analysis_prompt
      | None \<Rightarrow>
          if \<not> truthy google_key then (Settled (Inl (Error api_key_required_message)), [])
          else (Settled (Inr (failure_result (Error (not_found_message ''undefined'')))), []))"

text \<open>
  The inner \<open>try\<close> of the \<open>call_tool\<close> case: the \<open>switch\<close> on the tool name. Neither
  \<open>downloadFile\<close> nor \<open>analyzeVideo\<close> is awaited under a timeout, so the switch is left
  pending when one of them never settles.
\<close>

definition ws_tool_switch ::
  "string option \<Rightarrow> network \<Rightarrow> provider \<Rightarrow> filesystem \<Rightarrow> string \<Rightarrow> ws_data
     \<Rightarrow> (js_error + AnalysisResult) awaited \<times> filesystem" where
  "ws_tool_switch google_key net model fs tempFilePath d =
     (if data_tool d = Some ''analyze_video_file'' then
        (case data_arguments d of
           ArgsUndefined \<Rightarrow>
             (Settled (Inl (Error (type_error ''undefined'' ''file_path''))), fs)
         | ArgsNull \<Rightarrow> (Settled (Inl (Error (type_error ''null'' ''file_path''))), fs)
         | ArgsFields args \<Rightarrow>
             (fst (remote_analyzeVideo_arg google_key fs model (args ''file_path'')
                     (args ''analysis_prompt'')), fs))
      else if data_tool d = Some ''analyze_video_url'' then
        (case data_arguments d of
           ArgsUndefined \<Rightarrow>
             rethrown (Error (type_error ''undefined'' ''video_url'')) fs tempFilePath
         | ArgsNull \<Rightarrow> rethrown (Error (type_error ''null'' ''video_url'')) fs tempFilePath
         | ArgsFields args \<Rightarrow>
             (case args ''video_url'' of
                None \<Rightarrow> rethrown (Error invalid_url_message) fs tempFilePath
              | Some url \<Rightarrow>
                  remote_url_block google_key net model fs url tempFilePath
                    (args ''analysis_prompt'')))
      else (Settled (Inl (Error (''Unknown tool: '' @ js_str (data_tool d)))), fs))"

text \<open>
  \<open>ws.on('message', ...)\<close> (remote-server.js, lines 620-717): the messages sent for one
  inbound frame, in order. A \<open>ws.send\<close> on the open connection does not throw. Every
  \<open>ws.send\<close> of the \<open>call_tool\<close> case comes after the awaited tool call, so nothing is sent
  while that call is pending.
\<close>

definition ws_on_message ::
  "string option \<Rightarrow> network \<Rightarrow> provider \<Rightarrow> filesystem \<Rightarrow> string \<Rightarrow> ws_payload
     \<Rightarrow> ws_message list \<times> filesystem" where
  "ws_on_message google_key net model fs tempFilePath payload =
     (case payload of
        Unparseable m \<Rightarrow> ([ErrorMsg None m], fs)
      | ParsedNull \<Rightarrow> ([ErrorMsg None type_error_null], fs)
      | Parsed d \<Rightarrow>
          if data_type d = Some ''list_tools'' then ([ToolsMsg remote_tools], fs)
          else if data_type d = Some ''call_tool'' then
            (case ws_tool_switch google_key net model fs tempFilePath d of
               (Never, fs') \<Rightarrow> ([], fs')
             | (Settled (Inr result), fs') \<Rightarrow> ([ToolResultMsg (data_id d) result], fs')
             | (Settled (Inl e), fs') \<Rightarrow> ([ErrorMsg (data_id d) (message e)], fs'))
          else if data_type d = Some ''ping'' then ([PongMsg], fs)
          else ([ErrorMsg None (''Unknown message type: '' @ js_str (data_type d))], fs))"

text \<open>Which messages answer an inbound frame, and the request id a message carries.\<close>

fun is_reply :: "ws_message \<Rightarrow> bool" where
  "is_reply (ToolsMsg ts) = True"
| "is_reply (ToolResultMsg i r) = True"
| "is_reply (ErrorMsg i m) = True"
| "is_reply PongMsg = True"
| "is_reply ConnectedMsg = False"
| "is_reply AuthRequiredMsg = False"

fun reply_id :: "ws_message \<Rightarrow> nat option" where
  "reply_id (ToolResultMsg i r) = i"
| "reply_id (ErrorMsg i m) = i"
| "reply_id other = None"

section \<open>The tagged-result invariant\<close>

text \<open>
  The invariant the specification states for \<open>AnalysisResult\<close>: a success carries a
  non-empty result list and no error; a failure carries an error and no results.
\<close>

definition tagged_invariant :: "AnalysisResult \<Rightarrow> bool" where
  "tagged_invariant r =
     (if success r
      then (case results r of None \<Rightarrow> False | Some rs \<Rightarrow> rs \<noteq> []) \<and> error r = None
      else error r \<noteq> None \<and> results r = None)"

section \<open>Properties of the validator\<close>

lemma not_found_not_too_large: "not_found_message p \<noteq> too_large_message"
  by (simp add: not_found_message_def too_large_message_def)

lemma unsupported_not_too_large: "unsupported_format_message \<noteq> too_large_message"
  by (simp add: unsupported_format_message_def too_large_message_def)

lemma not_found_not_unsupported: "not_found_message p \<noteq> unsupported_format_message"
  by (simp add: not_found_message_def unsupported_format_message_def)

lemmas path_defs = toLowerCase_def extname_def last_component_def lower_char_def

lemmas engine_defs = truthy_def validateVideoFile_def SUPPORTED_FORMATS_def MAX_FILE_SIZE_def
  analysis_body_def fileToGenerativePart_def readFileSync_def select_prompts_def
  failure_result_def mime_switch_def returned_def

lemma validate_supported:
  "fs p = Some f \<Longrightarrow> map_of SUPPORTED_FORMATS (toLowerCase (extname p)) = Some m \<Longrightarrow>
   fsize f \<le> MAX_FILE_SIZE \<Longrightarrow> validateVideoFile fs p = Inr m"
  by (simp add: validateVideoFile_def)

lemma validate_too_large:
  "fs p = Some f \<Longrightarrow> map_of SUPPORTED_FORMATS (toLowerCase (extname p)) = Some m \<Longrightarrow>
   MAX_FILE_SIZE < fsize f \<Longrightarrow> validateVideoFile fs p = Inl (Error too_large_message)"
  by (simp add: validateVideoFile_def)

lemma validate_unsupported:
  "fs p = Some f \<Longrightarrow> map_of SUPPORTED_FORMATS (toLowerCase (extname p)) = None \<Longrightarrow>
   validateVideoFile fs p = Inl (Error unsupported_format_message)"
  by (simp add: validateVideoFile_def)

lemma validate_missing:
  "fs p = None \<Longrightarrow> validateVideoFile fs p = Inl (Error (not_found_message p))"
  by (simp add: validateVideoFile_def)

text \<open>
  The two validators accept the same files with the same MIME type; on a refusal the
  stdio server's message carries the prefix of \<open>McpError\<close>.
\<close>

lemma stdio_validate_accepts:
  "(stdio_validateVideoFile fs p = Inr m) = (validateVideoFile fs p = Inr m)"
  by (simp add: stdio_validateVideoFile_def validateVideoFile_def split: option.splits)

lemma stdio_validate_message:
  "validateVideoFile fs p = Inl (Error msg) \<Longrightarrow>
   stdio_validateVideoFile fs p = Inl (McpError InvalidRequest msg) \<and>
   message (McpError InvalidRequest msg) = ''MCP error -32600: '' @ msg"
  by (auto simp: stdio_validateVideoFile_def validateVideoFile_def
      split: option.splits if_splits)

lemma supported_table:
  "map_of SUPPORTED_FORMATS ''.mp4'' = Some ''video/mp4''"
  "map_of SUPPORTED_FORMATS ''.webm'' = Some ''video/webm''"
  "map_of SUPPORTED_FORMATS ''.mov'' = Some ''video/quicktime''"
  "map_of SUPPORTED_FORMATS ''.avi'' = Some ''video/x-msvideo''"
  "map_of SUPPORTED_FORMATS ''.mkv'' = Some ''video/x-matroska''"
  by (simp_all add: SUPPORTED_FORMATS_def)

lemma supported_extensions:
  "(map_of SUPPORTED_FORMATS e = None) =
     (e \<notin> {''.mp4'', ''.webm'', ''.mov'', ''.avi'', ''.mkv''})"
  by (simp add: SUPPORTED_FORMATS_def)

lemma mime_switch_mapped:
  "toLowerCase (extname p) = ''.mp4'' \<Longrightarrow> mime_switch p = ''video/mp4''"
  "toLowerCase (extname p) = ''.webm'' \<Longrightarrow> mime_switch p = ''video/webm''"
  "toLowerCase (extname p) = ''.mov'' \<Longrightarrow> mime_switch p = ''video/quicktime''"
  by (simp_all add: mime_switch_def)

lemma mime_switch_default:
  "toLowerCase (extname p) \<notin> {''.mp4'', ''.webm'', ''.mov''} \<Longrightarrow> mime_switch p = ''video/mp4''"
  by (simp add: mime_switch_def Let_def)

lemma sample_clip_valid:
  "validateVideoFile [''/tmp/clip.mp4'' \<mapsto> \<lparr>fsize = 3, fdata = ''abc''\<rparr>] ''/tmp/clip.mp4'' =
     Inr ''video/mp4''"
  by (simp add: validateVideoFile_def SUPPORTED_FORMATS_def MAX_FILE_SIZE_def path_defs)

section \<open>Properties of the prompt loop\<close>

lemma prompt_loop_all_succeed:
  "(\<And>i. i < length ps \<Longrightarrow> model (length calls + i) (ps ! i) part = Settled (Inr (t i))) \<Longrightarrow>
   prompt_loop model part ps res calls =
     (Settled (Inr (res @ map (\<lambda>i. \<lparr>prompt = ps ! i, analysis = t i\<rparr>) [0..<length ps])),
      calls @ ps)"
proof (induction ps arbitrary: res calls t)
  case Nil
  then show ?case by simp
next
  case (Cons p ps)
  have first_call: "model (length calls) p part = Settled (Inr (t 0))"
    using Cons.prems [of 0] by simp
  have later: "\<And>i. i < length ps \<Longrightarrow>
      model (length (calls @ [p]) + i) (ps ! i) part = Settled (Inr ((t \<circ> Suc) i))"
    using Cons.prems [of "Suc _"] by simp
  have shift: "map (\<lambda>i. \<lparr>prompt = (p # ps) ! i, analysis = t i\<rparr>) [0..<length (p # ps)] =
      \<lparr>prompt = p, analysis = t 0\<rparr> #
        map (\<lambda>i. \<lparr>prompt = ps ! i, analysis = (t \<circ> Suc) i\<rparr>) [0..<length ps]"
    by (simp add: upt_conv_Cons map_Suc_upt [symmetric] del: upt_Suc)
  show ?case
    using Cons.IH [OF later] first_call shift by simp
qed

lemma prompt_loop_first_failure:
  "k < length ps \<Longrightarrow>
   (\<And>i. i < k \<Longrightarrow> model (length calls + i) (ps ! i) part = Settled (Inr (t i))) \<Longrightarrow>
   model (length calls + k) (ps ! k) part = Settled (Inl e) \<Longrightarrow>
   prompt_loop model part ps res calls = (Settled (Inl e), calls @ take (Suc k) ps)"
proof (induction ps arbitrary: res calls t k)
  case Nil
  then show ?case by simp
next
  case (Cons p ps)
  show ?case
  proof (cases k)
    case 0
    then show ?thesis using Cons.prems by simp
  next
    case (Suc j)
    have first_call: "model (length calls) p part = Settled (Inr (t 0))"
      using Cons.prems(2) [of 0] Suc by simp
    have later: "\<And>i. i < j \<Longrightarrow>
        model (length (calls @ [p]) + i) (ps ! i) part = Settled (Inr ((t \<circ> Suc) i))"
      using Cons.prems(2) [of "Suc _"] Suc by simp
    have fails: "model (length (calls @ [p]) + j) (ps ! j) part = Settled (Inl e)"
      using Cons.prems(3) Suc by simp
    have "j < length ps" using Cons.prems(1) Suc by simp
    from Cons.IH [OF this later fails] first_call Suc show ?thesis by simp
  qed
qed

lemma prompt_loop_calls_prefix:
  "\<exists>n \<le> length ps. snd (prompt_loop model part ps res calls) = calls @ take n ps"
proof (induction ps arbitrary: res calls)
  case Nil
  then show ?case by simp
next
  case (Cons p ps)
  have stop: "\<exists>n \<le> length (p # ps).
      snd (prompt_loop model part (p # ps) res calls) = calls @ take n (p # ps)"
    if "snd (prompt_loop model part (p # ps) res calls) = calls @ [p]"
    using that by (intro exI [of _ 1]) simp
  show ?case
  proof (cases "model (length calls) p part")
    case Never
    then show ?thesis by (intro stop) simp
  next
    case (Settled outcome)
    show ?thesis
    proof (cases outcome)
      case (Inl e)
      then show ?thesis using Settled by (intro stop) simp
    next
      case (Inr answer)
      obtain n where n: "n \<le> length ps"
        "snd (prompt_loop model part ps (res @ [\<lparr>prompt = p, analysis = answer\<rparr>]) (calls @ [p])) =
           (calls @ [p]) @ take n ps"
        using Cons.IH by blast
      then show ?thesis using Inr Settled by (intro exI [of _ "Suc n"]) simp
    qed
  qed
qed

lemma prompt_loop_result_shape:
  "prompt_loop model part ps res calls = (Settled (Inr out), cs) \<Longrightarrow>
     cs = calls @ ps \<and> map prompt out = map prompt res @ ps"
proof (induction ps arbitrary: res calls)
  case Nil
  then show ?case by simp
next
  case (Cons p ps)
  show ?case
  proof (cases "model (length calls) p part")
    case Never
    then show ?thesis using Cons.prems by simp
  next
    case (Settled outcome)
    show ?thesis
    proof (cases outcome)
      case (Inl e)
      then show ?thesis using Settled Cons.prems by simp
    next
      case (Inr answer)
      then have "prompt_loop model part ps (res @ [\<lparr>prompt = p, analysis = answer\<rparr>])
          (calls @ [p]) = (Settled (Inr out), cs)"
        using Settled Cons.prems by simp
      from Cons.IH [OF this] show ?thesis by simp
    qed
  qed
qed

lemma prompt_loop_settles:
  "(\<And>n q v. model n q v \<noteq> Never) \<Longrightarrow> fst (prompt_loop model part ps res calls) \<noteq> Never"
proof (induction ps arbitrary: res calls)
  case Nil
  then show ?case by simp
next
  case (Cons p ps)
  show ?case
  proof (cases "model (length calls) p part")
    case Never
    then show ?thesis using Cons.prems [of "length calls" p part] by simp
  next
    case (Settled outcome)
    show ?thesis
    proof (cases outcome)
      case (Inl e)
      then show ?thesis using Settled by simp
    next
      case (Inr answer)
      then show ?thesis using Settled Cons.IH [OF Cons.prems] by simp
    qed
  qed
qed

section \<open>Properties of the analysis engine\<close>

lemma select_prompts_nonempty: "defaults \<noteq> [] \<Longrightarrow> select_prompts defaults ap \<noteq> []"
  by (simp add: select_prompts_def split: option.splits)

lemma select_prompts_custom: "q \<noteq> [] \<Longrightarrow> select_prompts defaults (Some q) = [q]"
  by (simp add: select_prompts_def)

lemma select_prompts_absent:
  "select_prompts defaults None = defaults" "select_prompts defaults (Some []) = defaults"
  by (simp_all add: select_prompts_def)

lemma defaultPrompts_length: "length defaultPrompts = 5"
  by (simp add: defaultPrompts_def)

lemma express_defaultPrompts_length: "length express_defaultPrompts = 5"
  by (simp add: express_defaultPrompts_def)

lemma defaultPrompts_no_empty: "[] \<notin> set defaultPrompts"
  by (simp add: defaultPrompts_def)

lemma defaultPrompts_distinct: "distinct defaultPrompts"
  by (simp add: defaultPrompts_def)

lemma failure_result_tagged: "tagged_invariant (failure_result e)"
  by (simp add: tagged_invariant_def failure_result_def)

lemma returned_simps:
  "returned (Never, c) = (Never, c)"
  "returned (Settled r, c) = (Settled (Inr r), c)"
  by (simp_all add: returned_def)

lemma returned_snd: "snd (returned a) = snd a"
  by (cases a) (simp add: returned_def split: awaited.splits)

lemma returned_fst: "(fst (returned a) = Settled (Inr r)) = (fst a = Settled r)"
  by (cases a) (simp add: returned_def split: awaited.splits)

lemma returned_never: "(fst (returned a) = Never) = (fst a = Never)"
  by (cases a) (simp add: returned_def split: awaited.splits)

lemma returned_pair: "returned a = (Settled (Inr (r)), cs) \<Longrightarrow> a = (Settled r, cs)"
  by (cases a) (auto simp: returned_def split: awaited.splits)

lemma analysis_body_tagged:
  assumes "defaults \<noteq> []" and "fst (analysis_body defaults fs model p m ap) = Settled r"
  shows "tagged_invariant r"
proof (cases "fileToGenerativePart fs p m")
  case (Inl e)
  then show ?thesis using assms(2) by (auto simp: analysis_body_def failure_result_tagged)
next
  case (Inr part)
  obtain out cs where loop:
    "prompt_loop model part (select_prompts defaults ap) [] [] = (out, cs)"
    by (cases "prompt_loop model part (select_prompts defaults ap) [] []") auto
  show ?thesis
  proof (cases out)
    case Never
    then show ?thesis using Inr loop assms(2) by (simp add: analysis_body_def)
  next
    case (Settled outcome)
    show ?thesis
    proof (cases outcome)
      case (Inl e)
      then show ?thesis
        using Inr loop Settled assms(2) by (auto simp: analysis_body_def failure_result_tagged)
    next
      case (Inr res)
      with loop Settled have "map prompt res = select_prompts defaults ap"
        using prompt_loop_result_shape
          [of model part "select_prompts defaults ap" "[]" "[]" res cs]
        by simp
      then have "res \<noteq> []" using select_prompts_nonempty [OF assms(1), of ap] by auto
      then show ?thesis
        using \<open>fileToGenerativePart fs p m = Inr part\<close> loop Inr Settled assms(2)
        by (auto simp: analysis_body_def tagged_invariant_def)
    qed
  qed
qed

lemma analysis_body_success:
  assumes "fs p = Some f"
    and "\<And>i. i < length (select_prompts defaults ap) \<Longrightarrow>
           model i (select_prompts defaults ap ! i)
             \<lparr>inline_data = fdata f, inline_mimeType = m\<rparr> = Settled (Inr (t i))"
  shows "analysis_body defaults fs model p m ap =
           (Settled \<lparr>success = True,
             results = Some (map (\<lambda>i. \<lparr>prompt = select_prompts defaults ap ! i, analysis = t i\<rparr>)
                               [0..<length (select_prompts defaults ap)]),
             error = None\<rparr>,
            select_prompts defaults ap)"
proof -
  let ?part = "\<lparr>inline_data = fdata f, inline_mimeType = m\<rparr>"
  have part: "fileToGenerativePart fs p m = Inr ?part"
    using assms(1) by (simp add: fileToGenerativePart_def readFileSync_def)
  have loop: "prompt_loop model ?part (select_prompts defaults ap) [] [] =
      (Settled (Inr ([] @ map (\<lambda>i. \<lparr>prompt = select_prompts defaults ap ! i, analysis = t i\<rparr>)
                  [0..<length (select_prompts defaults ap)])),
       [] @ select_prompts defaults ap)"
    by (rule prompt_loop_all_succeed) (use assms(2) in simp)
  show ?thesis using part loop by (simp add: analysis_body_def)
qed

lemma analysis_body_failure:
  assumes "fs p = Some f" and "k < length (select_prompts defaults ap)"
    and "\<And>i. i < k \<Longrightarrow>
           model i (select_prompts defaults ap ! i)
             \<lparr>inline_data = fdata f, inline_mimeType = m\<rparr> = Settled (Inr (t i))"
    and "model k (select_prompts defaults ap ! k)
           \<lparr>inline_data = fdata f, inline_mimeType = m\<rparr> = Settled (Inl e)"
  shows "analysis_body defaults fs model p m ap =
           (Settled \<lparr>success = False, results = None, error = Some (message e)\<rparr>,
            take (Suc k) (select_prompts defaults ap))"
proof -
  let ?part = "\<lparr>inline_data = fdata f, inline_mimeType = m\<rparr>"
  have part: "fileToGenerativePart fs p m = Inr ?part"
    using assms(1) by (simp add: fileToGenerativePart_def readFileSync_def)
  have loop: "prompt_loop model ?part (select_prompts defaults ap) [] [] =
      (Settled (Inl e), [] @ take (Suc k) (select_prompts defaults ap))"
    by (rule prompt_loop_first_failure [where t = t]) (use assms in simp_all)
  show ?thesis using part loop by (simp add: analysis_body_def failure_result_def)
qed

lemma analysis_body_snd:
  "fileToGenerativePart fs p m = Inr part \<Longrightarrow>
   snd (analysis_body defaults fs model p m ap) =
     snd (prompt_loop model part (select_prompts defaults ap) [] [])"
  by (simp add: analysis_body_def split: prod.splits sum.splits awaited.splits)

lemma analysis_body_calls_prefix:
  "\<exists>n \<le> length (select_prompts defaults ap).
     snd (analysis_body defaults fs model p m ap) = take n (select_prompts defaults ap)"
proof (cases "fileToGenerativePart fs p m")
  case (Inl e)
  then have "snd (analysis_body defaults fs model p m ap) = take 0 (select_prompts defaults ap)"
    by (simp add: analysis_body_def)
  then show ?thesis by blast
next
  case (Inr part)
  obtain n where n: "n \<le> length (select_prompts defaults ap)"
    "snd (prompt_loop model part (select_prompts defaults ap) [] []) =
      [] @ take n (select_prompts defaults ap)"
    using prompt_loop_calls_prefix [of "select_prompts defaults ap" model part "[]" "[]"] by blast
  then show ?thesis using analysis_body_snd [OF Inr, of defaults model ap] by auto
qed

lemma analysis_body_calls:
  "set (snd (analysis_body defaults fs model p m ap)) \<subseteq> set (select_prompts defaults ap)"
proof -
  obtain n where "snd (analysis_body defaults fs model p m ap) =
      take n (select_prompts defaults ap)"
    using analysis_body_calls_prefix [of defaults ap fs model p m] by blast
  then show ?thesis using set_take_subset [of n "select_prompts defaults ap"] by simp
qed

lemma analysis_body_settles:
  "(\<And>n q v. model n q v \<noteq> Never) \<Longrightarrow> fst (analysis_body defaults fs model p m ap) \<noteq> Never"
proof (cases "fileToGenerativePart fs p m")
  case (Inl e)
  then show ?thesis by (simp add: analysis_body_def)
next
  case (Inr part)
  assume "\<And>n q v. model n q v \<noteq> Never"
  then have "fst (prompt_loop model part (select_prompts defaults ap) [] []) \<noteq> Never"
    by (rule prompt_loop_settles)
  then show ?thesis
    using Inr by (auto simp: analysis_body_def split: prod.splits sum.splits awaited.splits)
qed

lemma remote_analyzeVideo_invalid:
  "truthy key \<Longrightarrow> validateVideoFile fs p = Inl e \<Longrightarrow>
   remote_analyzeVideo key fs model p ap = (Settled (Inr (failure_result e)), [])"
  by (simp add: remote_analyzeVideo_def)

lemma remote_analyzeVideo_valid:
  "truthy key \<Longrightarrow> validateVideoFile fs p = Inr m \<Longrightarrow>
   remote_analyzeVideo key fs model p ap =
     returned (analysis_body defaultPrompts fs model p m ap)"
  by (simp add: remote_analyzeVideo_def)

lemma mcp_analyzeVideo_body:
  "truthy key \<Longrightarrow>
   mcp_analyzeVideo key fs model p ap =
     returned (analysis_body defaultPrompts fs model p (mime_switch p) ap)"
  by (simp add: mcp_analyzeVideo_def)

lemma remote_calls_prefix:
  "\<exists>n \<le> length (select_prompts defaultPrompts ap).
     snd (remote_analyzeVideo key fs model p ap) = take n (select_prompts defaultPrompts ap)"
proof (cases "truthy key")
  case False
  then have "snd (remote_analyzeVideo key fs model p ap) =
      take 0 (select_prompts defaultPrompts ap)"
    by (simp add: remote_analyzeVideo_def)
  then show ?thesis by blast
next
  case True
  show ?thesis
  proof (cases "validateVideoFile fs p")
    case (Inl e)
    then have "snd (remote_analyzeVideo key fs model p ap) =
        take 0 (select_prompts defaultPrompts ap)"
      using True by (simp add: remote_analyzeVideo_def)
    then show ?thesis by blast
  next
    case (Inr m)
    then have "snd (remote_analyzeVideo key fs model p ap) =
        snd (analysis_body defaultPrompts fs model p m ap)"
      using True remote_analyzeVideo_valid [of key fs p m model ap] by (simp add: returned_snd)
    then show ?thesis
      using analysis_body_calls_prefix [of defaultPrompts ap fs model p m] by simp
  qed
qed

lemma mcp_calls_prefix:
  "\<exists>n \<le> length (select_prompts defaultPrompts ap).
     snd (mcp_analyzeVideo key fs model p ap) = take n (select_prompts defaultPrompts ap)"
proof (cases "truthy key")
  case False
  then have "snd (mcp_analyzeVideo key fs model p ap) =
      take 0 (select_prompts defaultPrompts ap)"
    by (simp add: mcp_analyzeVideo_def)
  then show ?thesis by blast
next
  case True
  then have "snd (mcp_analyzeVideo key fs model p ap) =
      snd (analysis_body defaultPrompts fs model p (mime_switch p) ap)"
    using mcp_analyzeVideo_body [of key fs model p ap] by (simp add: returned_snd)
  then show ?thesis
    using analysis_body_calls_prefix [of defaultPrompts ap fs model p "mime_switch p"] by simp
qed

lemma remote_analyzeVideo_settles:
  "(\<And>n q v. model n q v \<noteq> Never) \<Longrightarrow> fst (remote_analyzeVideo key fs model p ap) \<noteq> Never"
  using analysis_body_settles [of model defaultPrompts fs p _ ap]
  by (auto simp: remote_analyzeVideo_def returned_never split: sum.splits)

lemma analyze_success_path:
  assumes key: "truthy key" and on_disk: "fs p = Some f"
    and answers: "\<And>i part. i < length (select_prompts defaultPrompts ap) \<Longrightarrow>
           model i (select_prompts defaultPrompts ap ! i) part = Settled (Inr (t i))"
  shows "(validateVideoFile fs p = Inr m \<longrightarrow>
            remote_analyzeVideo key fs model p ap =
              (Settled (Inr \<lparr>success = True,
                    results = Some (map (\<lambda>i. \<lparr>prompt = select_prompts defaultPrompts ap ! i,
                                             analysis = t i\<rparr>)
                                      [0..<length (select_prompts defaultPrompts ap)]),
                    error = None\<rparr>),
               select_prompts defaultPrompts ap)) \<and>
         mcp_analyzeVideo key fs model p ap =
           (Settled (Inr \<lparr>success = True,
                 results = Some (map (\<lambda>i. \<lparr>prompt = select_prompts defaultPrompts ap ! i,
                                          analysis = t i\<rparr>)
                                   [0..<length (select_prompts defaultPrompts ap)]),
                 error = None\<rparr>),
            select_prompts defaultPrompts ap)"
proof -
  let ?ps = "select_prompts defaultPrompts ap"
  let ?ok = "\<lparr>success = True,
      results = Some (map (\<lambda>i. \<lparr>prompt = ?ps ! i, analysis = t i\<rparr>) [0..<length ?ps]),
      error = None\<rparr>"
  have body: "analysis_body defaultPrompts fs model p m' ap = (Settled ?ok, ?ps)" for m'
    using analysis_body_success
        [where fs = fs and p = p and f = f and t = t and model = model
           and defaults = defaultPrompts and ap = ap and m = m']
      on_disk answers
    by simp
  have remote: "validateVideoFile fs p = Inr m \<longrightarrow>
      remote_analyzeVideo key fs model p ap = (Settled (Inr ?ok), ?ps)"
    using remote_analyzeVideo_valid [of key fs p m model ap] key body [of m]
    by (simp add: returned_simps)
  have mcp: "mcp_analyzeVideo key fs model p ap = (Settled (Inr ?ok), ?ps)"
    using mcp_analyzeVideo_body [of key fs model p ap] key body [of "mime_switch p"]
    by (simp add: returned_simps)
  show ?thesis using remote mcp by (rule conjI)
qed

lemma analyze_failure_path:
  assumes key: "truthy key" and on_disk: "fs p = Some f"
    and k: "k < length (select_prompts defaultPrompts ap)"
    and before: "\<And>i part. i < k \<Longrightarrow>
           model i (select_prompts defaultPrompts ap ! i) part = Settled (Inr (t i))"
    and throws: "\<And>part. model k (select_prompts defaultPrompts ap ! k) part = Settled (Inl e)"
  shows "(validateVideoFile fs p = Inr m \<longrightarrow>
            remote_analyzeVideo key fs model p ap =
              (Settled (Inr \<lparr>success = False, results = None, error = Some (message e)\<rparr>),
               take (Suc k) (select_prompts defaultPrompts ap))) \<and>
         mcp_analyzeVideo key fs model p ap =
           (Settled (Inr \<lparr>success = False, results = None, error = Some (message e)\<rparr>),
            take (Suc k) (select_prompts defaultPrompts ap))"
proof -
  let ?ps = "select_prompts defaultPrompts ap"
  let ?ko = "\<lparr>success = False, results = (None :: analysis_entry list option),
      error = Some (message e)\<rparr>"
  have body: "analysis_body defaultPrompts fs model p m' ap = (Settled ?ko, take (Suc k) ?ps)"
    for m'
    using analysis_body_failure
        [where fs = fs and p = p and f = f and t = t and model = model and k = k and e = e
           and defaults = defaultPrompts and ap = ap and m = m']
      on_disk k before throws
    by simp
  have remote: "validateVideoFile fs p = Inr m \<longrightarrow>
      remote_analyzeVideo key fs model p ap = (Settled (Inr ?ko), take (Suc k) ?ps)"
    using remote_analyzeVideo_valid [of key fs p m model ap] key body [of m]
    by (simp add: returned_simps)
  have mcp: "mcp_analyzeVideo key fs model p ap = (Settled (Inr ?ko), take (Suc k) ?ps)"
    using mcp_analyzeVideo_body [of key fs model p ap] key body [of "mime_switch p"]
    by (simp add: returned_simps)
  show ?thesis using remote mcp by (rule conjI)
qed

section \<open>Properties of the temporary asset handling\<close>

lemma unlink_if_exists_removes: "unlink_if_exists fs p = Inr fs' \<Longrightarrow> fs' p = None"
  by (auto simp: unlink_if_exists_def existsSync_def unlinkSync_def split: if_splits option.splits)

lemma unlinkSync_removes: "unlinkSync fs p = Inr fs' \<Longrightarrow> fs' p = None"
  by (auto simp: unlinkSync_def split: option.splits)

lemma unlink_if_exists_total: "\<exists>fs'. unlink_if_exists fs p = Inr fs'"
  by (auto simp: unlink_if_exists_def existsSync_def unlinkSync_def split: option.splits)

lemma cleanup_catch_removes: "snd (cleanup_catch e fs p) p = None"
  using unlink_if_exists_total [of fs p] unlink_if_exists_removes [of fs p]
  by (auto simp: cleanup_catch_def)

lemma cleanup_catch_removes_pair: "cleanup_catch e fs p = (e', fs') \<Longrightarrow> fs' p = None"
  using cleanup_catch_removes [of e fs p] by simp

lemma rethrown_removes_pair: "rethrown e fs p = (r, fs') \<Longrightarrow> fs' p = None"
  by (auto simp: rethrown_def split: prod.splits dest: cleanup_catch_removes_pair)

lemma rethrown_removes: "snd (rethrown e fs p) p = None"
  using rethrown_removes_pair [of e fs p "fst (rethrown e fs p)" "snd (rethrown e fs p)"]
  by simp

lemma rethrown_settles: "fst (rethrown e fs p) \<noteq> Never"
  by (simp add: rethrown_def split: prod.splits)

text \<open>
  Whenever the block settles (with a result or with an error), the temporary file is
  gone. A block that is left pending has deleted nothing.
\<close>

lemma remote_url_block_removes:
  "fst (remote_url_block key net model fs url tmp ap) \<noteq> Never \<Longrightarrow>
   snd (remote_url_block key net model fs url tmp ap) tmp = None"
  unfolding remote_url_block_def
  by (auto simp: rethrown_removes split: prod.splits sum.splits awaited.splits
      dest: unlink_if_exists_removes)

lemma stdio_url_block_removes:
  "fst (stdio_url_block key net model fs url tmp ap) \<noteq> Never \<Longrightarrow>
   snd (stdio_url_block key net model fs url tmp ap) tmp = None"
  unfolding stdio_url_block_def
  by (auto simp: rethrown_removes split: prod.splits sum.splits awaited.splits
      dest: unlink_if_exists_removes)

lemma mcp_url_block_removes:
  "fst (mcp_url_block key net model fs url tmp ap) \<noteq> Never \<Longrightarrow>
   snd (mcp_url_block key net model fs url tmp ap) tmp = None"
  unfolding mcp_url_block_def
  by (auto simp: rethrown_removes split: prod.splits sum.splits awaited.splits
      dest: unlinkSync_removes)

lemma remote_url_block_removes_pair:
  "remote_url_block key net model fs url tmp ap = (Settled r, fs') \<Longrightarrow> fs' tmp = None"
  using remote_url_block_removes [of key net model fs url tmp ap] by simp

lemma api_analyze_url_removes:
  "fs tmp = None \<Longrightarrow>
   fst (api_analyze_url cfg jwt_verify key net model fs tmp req video_url ap) \<noteq> Never \<Longrightarrow>
   snd (api_analyze_url cfg jwt_verify key net model fs tmp req video_url ap) tmp = None"
  unfolding api_analyze_url_def
  by (auto split: auth_outcome.splits option.splits prod.splits sum.splits awaited.splits
      if_splits dest: remote_url_block_removes_pair)

lemma http_tool_switch_removes:
  "fs tmp = None \<Longrightarrow>
   fst (http_tool_switch key net model fs tmp toolName args) \<noteq> Never \<Longrightarrow>
   snd (http_tool_switch key net model fs tmp toolName args) tmp = None"
  unfolding http_tool_switch_def
  by (auto split: prod.splits sum.splits awaited.splits if_splits
      dest: remote_url_block_removes_pair)

lemma mcp_post_removes:
  "fs tmp = None \<Longrightarrow>
   fst (mcp_post cfg jwt_verify key net model fs tmp req method toolName args) \<noteq> Never \<Longrightarrow>
   snd (mcp_post cfg jwt_verify key net model fs tmp req method toolName args) tmp = None"
  unfolding mcp_post_def
  using http_tool_switch_removes [of fs tmp key net model toolName args]
  by (auto split: auth_outcome.splits if_splits)

lemma api_mcp_call_removes:
  "fs tmp = None \<Longrightarrow>
   fst (api_mcp_call cfg jwt_verify key net model fs tmp req tool args) \<noteq> Never \<Longrightarrow>
   snd (api_mcp_call cfg jwt_verify key net model fs tmp req tool args) tmp = None"
  unfolding api_mcp_call_def
  using http_tool_switch_removes [of fs tmp key net model tool args]
  by (auto split: auth_outcome.splits if_splits)

lemma ws_tool_switch_removes:
  "fs tmp = None \<Longrightarrow> fst (ws_tool_switch key net model fs tmp d) \<noteq> Never \<Longrightarrow>
   snd (ws_tool_switch key net model fs tmp d) tmp = None"
  unfolding ws_tool_switch_def
  by (auto simp: remote_url_block_removes rethrown_removes
      split: ws_arguments.splits option.splits if_splits)

lemma ws_tool_switch_removes_pair:
  "fs tmp = None \<Longrightarrow> ws_tool_switch key net model fs tmp d = (Settled r, fs') \<Longrightarrow>
   fs' tmp = None"
  using ws_tool_switch_removes [of fs tmp key net model d] by simp

lemma ws_on_message_removes:
  "fs tmp = None \<Longrightarrow> fst (ws_on_message key net model fs tmp payload) \<noteq> [] \<Longrightarrow>
   snd (ws_on_message key net model fs tmp payload) tmp = None"
  unfolding ws_on_message_def
  by (auto split: ws_payload.splits prod.splits sum.splits awaited.splits if_splits
      dest: ws_tool_switch_removes_pair)

text \<open>
  A download whose body stalls leaves the bytes received so far in the temporary
  file, and the block never reaches its deletion.
\<close>

lemma stalled_download_leaves_file:
  "net url = Response True statusText (Stalled d) \<Longrightarrow>
   remote_url_block key net model fs url tmp ap =
     (Never, fs(tmp \<mapsto> \<lparr>fsize = length d, fdata = d\<rparr>))"
  by (simp add: remote_url_block_def downloadFile_def)

text \<open>Which downloads settle, and that the WebSocket tool call settles with them.\<close>

lemma downloadFile_settles:
  "download_settles (net url) \<Longrightarrow> fst (downloadFile net fs url out) \<noteq> Never"
  by (cases "net url" rule: download_settles.cases)
    (auto simp: downloadFile_def split: body_stream.splits)

lemma remote_url_block_settles:
  assumes "download_settles (net url)" and "\<And>n q v. model n q v \<noteq> Never"
  shows "fst (remote_url_block key net model fs url tmp ap) \<noteq> Never"
proof -
  obtain r fs1 where dl: "downloadFile net fs url tmp = (r, fs1)"
    by (cases "downloadFile net fs url tmp") auto
  have r: "r \<noteq> Never"
    using downloadFile_settles [where net = net and url = url and fs = fs and out = tmp]
      assms(1) dl
    by simp
  have a: "fst (remote_analyzeVideo key fs1 model tmp ap) \<noteq> Never"
    using assms(2) by (rule remote_analyzeVideo_settles)
  show ?thesis
    using dl r a rethrown_settles
    by (auto simp: remote_url_block_def split: awaited.splits sum.splits)
qed

lemma ws_tool_switch_settles:
  assumes "\<And>u. download_settles (net u)" and "\<And>n q v. model n q v \<noteq> Never"
  shows "fst (ws_tool_switch key net model fs tmp d) \<noteq> Never"
proof -
  have by_url: "fst (remote_url_block key net model fs u tmp ap) \<noteq> Never" for u ap
    using remote_url_block_settles
        [where net = net and url = u and model = model and key = key and fs = fs
           and tmp = tmp and ap = ap]
      assms
    by simp
  have by_file: "fst (remote_analyzeVideo key fs model p ap) \<noteq> Never" for p ap
    using assms(2) by (rule remote_analyzeVideo_settles)
  show ?thesis
    by (simp add: ws_tool_switch_def remote_analyzeVideo_arg_def by_url by_file
        rethrown_settles split: ws_arguments.splits option.splits)
qed

section \<open>Properties of authentication and discovery\<close>

lemmas auth_defs = authenticate_def truthy_def providedKey_def verified_claims_def
  bearer_token_def second_def first_def js_split_def url_param_def

lemma authenticate_rejects_iff:
  "(authenticate cfg jwt_verify req = Unauthorized) =
     (ENABLE_AUTH cfg \<and> truthy (API_KEY cfg) \<and> providedKey req \<noteq> API_KEY cfg \<and>
      verified_claims jwt_verify (bearer_token req) = None)"
  by (auto simp: authenticate_def split: option.splits)

lemma api_mcp_tools_cases:
  "api_mcp_tools cfg jwt_verify req =
     (if authenticate cfg jwt_verify req = Unauthorized
      then Respond 401 (ErrorBody authentication_required)
      else Respond 200 (ToolsBody remote_tools))"
  by (simp add: api_mcp_tools_def split: auth_outcome.splits)

lemma mcp_post_list_cases:
  "mcp_post cfg jwt_verify key net model fs tmp req (Some ''tools/list'') toolName args =
     (if authenticate cfg jwt_verify req = Unauthorized
      then (Settled (Respond 401 (ErrorBody authentication_required)), fs)
      else (Settled (Respond 200 (ToolsBody remote_tools)), fs))"
  by (simp add: mcp_post_def split: auth_outcome.splits)

lemma ws_list_tools_reply:
  "data_type d = Some ''list_tools'' \<Longrightarrow>
   ws_on_message key net model fs tmp (Parsed d) = ([ToolsMsg remote_tools], fs)"
  by (simp add: ws_on_message_def)

lemma verified_truthy: "verified_claims jwt_verify tok \<noteq> None \<Longrightarrow> truthy tok"
  by (auto simp: verified_claims_def truthy_def split: option.splits if_splits)

lemma unverified_falsy: "\<not> truthy tok \<Longrightarrow> verified_claims jwt_verify tok = None"
  by (auto simp: verified_claims_def truthy_def split: option.splits if_splits)

text \<open>
  The handshake by cases: the \<open>if\<close>/\<open>else if\<close> chain of lines 598-611 tries the API key,
  then the token when one is supplied, and falls back on the missing configuration
  only when no token is supplied.
\<close>

lemma ws_accepted_iff:
  "(ws_on_connection cfg jwt_verify url = (True, [ConnectedMsg])) =
     (\<not> ENABLE_AUTH cfg \<or>
      (truthy (API_KEY cfg) \<and> url_param ''api_key='' url = API_KEY cfg) \<or>
      verified_claims jwt_verify (url_param ''token='' url) \<noteq> None \<or>
      (\<not> truthy (API_KEY cfg) \<and> \<not> truthy (url_param ''token='' url)))"
  using verified_truthy [of jwt_verify "url_param ''token='' url"]
  by (auto simp: ws_on_connection_def ws_authenticated_def Let_def unverified_falsy)

lemma ws_refused_iff:
  "(ws_on_connection cfg jwt_verify url = (False, [AuthRequiredMsg])) =
     (ENABLE_AUTH cfg \<and>
      \<not> (truthy (API_KEY cfg) \<and> url_param ''api_key='' url = API_KEY cfg) \<and>
      verified_claims jwt_verify (url_param ''token='' url) = None \<and>
      (truthy (API_KEY cfg) \<or> truthy (url_param ''token='' url)))"
  using verified_truthy [of jwt_verify "url_param ''token='' url"]
  by (auto simp: ws_on_connection_def ws_authenticated_def Let_def unverified_falsy)

section \<open>C1: temporary files of URL operations\<close>

text \<open>
  The URL operations of remote-server.js, of mcp-server.js and of the stdio server
  delete the temporary file on every path on which they settle, as the lemmas above
  show. The plain Express server does not:

  C1. After a URL-based analysis the temporary file of the request does not exist.
  The code of \<open>POST /analyze_video_url\<close> breaks this when the download starts and then
  fails: the partly written file is still on disk when the handler has answered 500,
  whereas the same download through the block of remote-server.js leaves nothing.
\<close>

theorem express_broken_download_leaves_file:
  "express_analyze_video_url
       (\<lambda>url. Response True ''OK'' (Broken ''partial'' ''aborted''))
       (\<lambda>n q v. Settled (Inr ''fine'')) (\<lambda>p. None)
       (Some ''https://example.com/clip.mp4'')
       ''/tmp/video-analysis-uploads/1b4e28ba.mp4'' None
     = (Settled (Respond 500 (FailureBody ''aborted'')),
        [''/tmp/video-analysis-uploads/1b4e28ba.mp4'' \<mapsto>
           \<lparr>fsize = length ''partial'', fdata = ''partial''\<rparr>]) \<and>
   existsSync
     (snd (express_analyze_video_url
       (\<lambda>url. Response True ''OK'' (Broken ''partial'' ''aborted''))
       (\<lambda>n q v. Settled (Inr ''fine'')) (\<lambda>p. None)
       (Some ''https://example.com/clip.mp4'')
       ''/tmp/video-analysis-uploads/1b4e28ba.mp4'' None))
     ''/tmp/video-analysis-uploads/1b4e28ba.mp4'' \<and>
   \<not> existsSync
     (snd (remote_url_block (Some ''key'')
       (\<lambda>url. Response True ''OK'' (Broken ''partial'' ''aborted''))
       (\<lambda>n q v. Settled (Inr ''fine'')) (\<lambda>p. None)
       ''https://example.com/clip.mp4''
       ''/tmp/video-analysis-uploads/1b4e28ba.mp4'' None))
     ''/tmp/video-analysis-uploads/1b4e28ba.mp4''"
  by (simp add: express_analyze_video_url_def downloadFile_def existsSync_def
      remote_url_block_def rethrown_def cleanup_catch_def unlink_if_exists_def
      unlinkSync_def)

section \<open>C2: tool discovery and authentication\<close>

text \<open>
  C2 (amended). In remote-server.js the listing endpoints \<open>POST /api/mcp/tools\<close> and
  \<open>POST /mcp\<close> (\<open>tools/list\<close>) run behind \<open>authenticate\<close>: they return the tool list unless
  authentication is enabled, an API key is configured, the supplied key differs from
  it and no valid token is supplied, in which case the answer is 401. A WebSocket
  connection is accepted when authentication is disabled, when the \<open>api_key\<close>
  parameter equals the configured key, when the \<open>token\<close> parameter verifies, and when
  no API key is configured and no token is supplied; it is refused when authentication
  is enabled, the key does not match, the token does not verify, and a token is
  supplied or an API key is configured. On an accepted connection a \<open>list_tools\<close>
  message is answered with the tool list.
\<close>

theorem discovery_behind_authenticate:
  "api_mcp_tools cfg jwt_verify req =
     (if ENABLE_AUTH cfg \<and> truthy (API_KEY cfg) \<and> providedKey req \<noteq> API_KEY cfg \<and>
         verified_claims jwt_verify (bearer_token req) = None
      then Respond 401 (ErrorBody authentication_required)
      else Respond 200 (ToolsBody remote_tools)) \<and>
   mcp_post cfg jwt_verify key net model fs tmp req (Some ''tools/list'') toolName args =
     (if ENABLE_AUTH cfg \<and> truthy (API_KEY cfg) \<and> providedKey req \<noteq> API_KEY cfg \<and>
         verified_claims jwt_verify (bearer_token req) = None
      then (Settled (Respond 401 (ErrorBody authentication_required)), fs)
      else (Settled (Respond 200 (ToolsBody remote_tools)), fs)) \<and>
   (\<not> ENABLE_AUTH cfg \<longrightarrow> ws_on_connection cfg jwt_verify url = (True, [ConnectedMsg])) \<and>
   (\<not> truthy (API_KEY cfg) \<and> \<not> truthy (url_param ''token='' url) \<longrightarrow>
      ws_on_connection cfg jwt_verify url = (True, [ConnectedMsg])) \<and>
   (truthy (API_KEY cfg) \<and> url_param ''api_key='' url = API_KEY cfg \<longrightarrow>
      ws_on_connection cfg jwt_verify url = (True, [ConnectedMsg])) \<and>
   (verified_claims jwt_verify (url_param ''token='' url) \<noteq> None \<longrightarrow>
      ws_on_connection cfg jwt_verify url = (True, [ConnectedMsg])) \<and>
   (ENABLE_AUTH cfg \<and>
    \<not> (truthy (API_KEY cfg) \<and> url_param ''api_key='' url = API_KEY cfg) \<and>
    verified_claims jwt_verify (url_param ''token='' url) = None \<and>
    (truthy (API_KEY cfg) \<or> truthy (url_param ''token='' url)) \<longrightarrow>
      ws_on_connection cfg jwt_verify url = (False, [AuthRequiredMsg])) \<and>
   (data_type d = Some ''list_tools'' \<longrightarrow>
      ws_on_message key net model fs tmp (Parsed d) = ([ToolsMsg remote_tools], fs))"
proof -
  have a: "api_mcp_tools cfg jwt_verify req =
     (if ENABLE_AUTH cfg \<and> truthy (API_KEY cfg) \<and> providedKey req \<noteq> API_KEY cfg \<and>
         verified_claims jwt_verify (bearer_token req) = None
      then Respond 401 (ErrorBody authentication_required)
      else Respond 200 (ToolsBody remote_tools))"
    unfolding api_mcp_tools_cases authenticate_rejects_iff by (rule refl)
  have b: "mcp_post cfg jwt_verify key net model fs tmp req (Some ''tools/list'') toolName args =
     (if ENABLE_AUTH cfg \<and> truthy (API_KEY cfg) \<and> providedKey req \<noteq> API_KEY cfg \<and>
         verified_claims jwt_verify (bearer_token req) = None
      then (Settled (Respond 401 (ErrorBody authentication_required)), fs)
      else (Settled (Respond 200 (ToolsBody remote_tools)), fs))"
    unfolding mcp_post_list_cases authenticate_rejects_iff by (rule refl)
  note acc = ws_accepted_iff [of cfg jwt_verify url]
  have c1: "\<not> ENABLE_AUTH cfg \<longrightarrow> ws_on_connection cfg jwt_verify url = (True, [ConnectedMsg])"
    unfolding acc by (intro impI disjI1)
  have c2: "\<not> truthy (API_KEY cfg) \<and> \<not> truthy (url_param ''token='' url) \<longrightarrow>
      ws_on_connection cfg jwt_verify url = (True, [ConnectedMsg])"
    unfolding acc by (intro impI disjI2)
  have c3: "truthy (API_KEY cfg) \<and> url_param ''api_key='' url = API_KEY cfg \<longrightarrow>
      ws_on_connection cfg jwt_verify url = (True, [ConnectedMsg])"
    unfolding acc by (intro impI disjI2 [OF disjI1])
  have c4: "verified_claims jwt_verify (url_param ''token='' url) \<noteq> None \<longrightarrow>
      ws_on_connection cfg jwt_verify url = (True, [ConnectedMsg])"
    unfolding acc by (intro impI disjI2 [OF disjI2 [OF disjI1]])
  have c5: "ENABLE_AUTH cfg \<and>
    \<not> (truthy (API_KEY cfg) \<and> url_param ''api_key='' url = API_KEY cfg) \<and>
    verified_claims jwt_verify (url_param ''token='' url) = None \<and>
    (truthy (API_KEY cfg) \<or> truthy (url_param ''token='' url)) \<longrightarrow>
      ws_on_connection cfg jwt_verify url = (False, [AuthRequiredMsg])"
    unfolding ws_refused_iff [of cfg jwt_verify url] by (rule impI)
  have d: "data_type d = Some ''list_tools'' \<longrightarrow>
      ws_on_message key net model fs tmp (Parsed d) = ([ToolsMsg remote_tools], fs)"
    using ws_list_tools_reply [of d key net model fs tmp] by (rule impI)
  show ?thesis
    by (rule conjI [OF a conjI [OF b conjI [OF c1 conjI [OF c2 conjI [OF c3
          conjI [OF c4 conjI [OF c5 d]]]]]]])
qed

theorem discovery_behind_authenticate_witness:
  "api_mcp_tools \<lparr>ENABLE_AUTH = True, API_KEY = Some ''s3cret''\<rparr> (\<lambda>t. None)
       \<lparr>header_x_api_key = Some ''s3cret'', query_api_key = None, header_authorization = None\<rparr> =
     Respond 200 (ToolsBody remote_tools) \<and>
   api_mcp_tools \<lparr>ENABLE_AUTH = True, API_KEY = None\<rparr> (\<lambda>t. None)
       \<lparr>header_x_api_key = None, query_api_key = None, header_authorization = None\<rparr> =
     Respond 200 (ToolsBody remote_tools) \<and>
   ws_on_connection \<lparr>ENABLE_AUTH = True, API_KEY = None\<rparr> (\<lambda>t. None) ''/ws/mcp'' =
     (True, [ConnectedMsg]) \<and>
   ws_on_connection \<lparr>ENABLE_AUTH = True, API_KEY = None\<rparr> (\<lambda>t. None) ''/ws/mcp?token=forged'' =
     (False, [AuthRequiredMsg]) \<and>
   ws_on_connection \<lparr>ENABLE_AUTH = False, API_KEY = Some ''s3cret''\<rparr> (\<lambda>t. None) ''/ws/mcp'' =
     (True, [ConnectedMsg]) \<and>
   ws_on_message (Some ''key'') (\<lambda>url. FetchRejected ''offline'') (\<lambda>n q v. Settled (Inr ''fine''))
       (\<lambda>p. None) ''/tmp/t.mp4''
       (Parsed \<lparr>data_type = Some ''list_tools'', data_tool = None,
                data_arguments = ArgsUndefined, data_id = None\<rparr>) =
     ([ToolsMsg remote_tools], (\<lambda>p. None))"
proof -
  let ?open = "\<lparr>ENABLE_AUTH = True, API_KEY = None\<rparr>"
  let ?bare = "\<lparr>header_x_api_key = None, query_api_key = None, header_authorization = None\<rparr>"
  have with_key: "api_mcp_tools \<lparr>ENABLE_AUTH = True, API_KEY = Some ''s3cret''\<rparr> (\<lambda>t. None)
       \<lparr>header_x_api_key = Some ''s3cret'', query_api_key = None, header_authorization = None\<rparr> =
     Respond 200 (ToolsBody remote_tools)"
    using discovery_behind_authenticate
        [where cfg = "\<lparr>ENABLE_AUTH = True, API_KEY = Some ''s3cret''\<rparr>" and jwt_verify = "\<lambda>t. None"
           and req = "\<lparr>header_x_api_key = Some ''s3cret'', query_api_key = None,
                       header_authorization = None\<rparr>",
         THEN conjunct1]
    by (simp add: providedKey_def truthy_def)
  have no_key: "api_mcp_tools ?open (\<lambda>t. None) ?bare = Respond 200 (ToolsBody remote_tools)"
    using discovery_behind_authenticate
        [where cfg = ?open and jwt_verify = "\<lambda>t. None" and req = ?bare, THEN conjunct1]
    by (simp add: truthy_def)
  have no_token: "url_param ''token='' ''/ws/mcp'' = None"
    by (simp add: url_param_def second_def js_split_def)
  have forged: "url_param ''token='' ''/ws/mcp?token=forged'' = Some ''forged''"
    by (simp add: url_param_def second_def first_def js_split_def)
  have no_api_key: "url_param ''api_key='' ''/ws/mcp?token=forged'' = None"
    by (simp add: url_param_def second_def js_split_def)
  have ws_open: "ws_on_connection ?open (\<lambda>t. None) ''/ws/mcp'' = (True, [ConnectedMsg])"
    using discovery_behind_authenticate
        [where cfg = ?open and jwt_verify = "\<lambda>t. None" and url = "''/ws/mcp''",
         THEN conjunct2, THEN conjunct2, THEN conjunct2, THEN conjunct1]
    by (simp add: truthy_def no_token)
  have ws_forged: "ws_on_connection ?open (\<lambda>t. None) ''/ws/mcp?token=forged'' =
      (False, [AuthRequiredMsg])"
    using discovery_behind_authenticate
        [where cfg = ?open and jwt_verify = "\<lambda>t. None" and url = "''/ws/mcp?token=forged''",
         THEN conjunct2, THEN conjunct2, THEN conjunct2, THEN conjunct2, THEN conjunct2,
         THEN conjunct2, THEN conjunct1]
    by (simp add: truthy_def forged no_api_key verified_claims_def)
  have ws_disabled: "ws_on_connection \<lparr>ENABLE_AUTH = False, API_KEY = Some ''s3cret''\<rparr>
      (\<lambda>t. None) ''/ws/mcp'' = (True, [ConnectedMsg])"
    using discovery_behind_authenticate
        [where cfg = "\<lparr>ENABLE_AUTH = False, API_KEY = Some ''s3cret''\<rparr>"
           and jwt_verify = "\<lambda>t. None" and url = "''/ws/mcp''",
         THEN conjunct2, THEN conjunct2, THEN conjunct1]
    by simp
  have ws: "ws_on_message (Some ''key'') (\<lambda>url. FetchRejected ''offline'')
       (\<lambda>n q v. Settled (Inr ''fine'')) (\<lambda>p. None) ''/tmp/t.mp4''
       (Parsed \<lparr>data_type = Some ''list_tools'', data_tool = None,
                data_arguments = ArgsUndefined, data_id = None\<rparr>) =
     ([ToolsMsg remote_tools], (\<lambda>p. None))"
    using discovery_behind_authenticate
        [where d = "\<lparr>data_type = Some ''list_tools'', data_tool = None,
                     data_arguments = ArgsUndefined, data_id = None\<rparr>"
           and key = "Some ''key''" and net = "\<lambda>url. FetchRejected ''offline''"
           and model = "\<lambda>n q v. Settled (Inr ''fine'')" and fs = "\<lambda>p. None"
           and tmp = "''/tmp/t.mp4''",
         THEN conjunct2, THEN conjunct2, THEN conjunct2, THEN conjunct2, THEN conjunct2,
         THEN conjunct2, THEN conjunct2]
    by simp
  show ?thesis
    by (rule conjI [OF with_key conjI [OF no_key conjI [OF ws_open conjI [OF ws_forged
          conjI [OF ws_disabled ws]]]]])
qed

text \<open>
  C2 as stated fails in remote-server.js: with authentication enabled and an API key
  configured, a listing request without credentials or with invalid ones is answered
  401, and a WebSocket handshake without credentials is refused.
\<close>

theorem discovery_public_counterexample:
  "api_mcp_tools \<lparr>ENABLE_AUTH = True, API_KEY = Some ''s3cret''\<rparr> (\<lambda>t. None)
       \<lparr>header_x_api_key = None, query_api_key = None, header_authorization = None\<rparr> =
     Respond 401 (ErrorBody authentication_required) \<and>
   api_mcp_tools \<lparr>ENABLE_AUTH = True, API_KEY = Some ''s3cret''\<rparr> (\<lambda>t. None)
       \<lparr>header_x_api_key = Some ''guess'', query_api_key = None,
        header_authorization = Some ''Bearer forged''\<rparr> =
     Respond 401 (ErrorBody authentication_required) \<and>
   fst (mcp_post \<lparr>ENABLE_AUTH = True, API_KEY = Some ''s3cret''\<rparr> (\<lambda>t. None) (Some ''key'')
          (\<lambda>url. FetchRejected ''offline'') (\<lambda>n q v. Settled (Inr ''fine'')) (\<lambda>p. None)
          ''/tmp/t.mp4''
          \<lparr>header_x_api_key = None, query_api_key = None, header_authorization = None\<rparr>
          (Some ''tools/list'') None None) =
     Settled (Respond 401 (ErrorBody authentication_required)) \<and>
   ws_on_connection \<lparr>ENABLE_AUTH = True, API_KEY = Some ''s3cret''\<rparr> (\<lambda>t. None) ''/ws/mcp'' =
     (False, [AuthRequiredMsg])"
  by (simp add: api_mcp_tools_def mcp_post_def authenticate_def truthy_def providedKey_def
      verified_claims_def bearer_token_def second_def first_def js_split_def
      ws_on_connection_def ws_authenticated_def url_param_def)

section \<open>C3: extension table\<close>

text \<open>
  C3 (amended). In remote-server.js, for an existing file whose size is within the
  ceiling and whose lower-cased extension is one of .mp4, .webm, .mov, .avi, .mkv,
  \<open>validateVideoFile\<close> returns exactly the table's MIME type; for an existing file of
  any other extension it fails with the unsupported-format error and \<open>analyzeVideo\<close>
  returns a failure without any provider call. mcp-server.js does not validate: its
  switch gives .mp4 the type video/mp4, .webm the type video/webm, .mov the type
  video/quicktime, and every other extension (so .avi and .mkv too) the type
  video/mp4; the analysis of an existing file goes on whatever its extension, with
  the type of the switch in the part handed to the provider, and succeeds when the
  provider answers on that part.
\<close>

theorem validate_mime_table:
  assumes "fs p = Some f" and "e = toLowerCase (extname p)"
  shows "(fsize f \<le> MAX_FILE_SIZE \<longrightarrow>
            (e = ''.mp4'' \<longrightarrow> validateVideoFile fs p = Inr ''video/mp4'') \<and>
            (e = ''.webm'' \<longrightarrow> validateVideoFile fs p = Inr ''video/webm'') \<and>
            (e = ''.mov'' \<longrightarrow> validateVideoFile fs p = Inr ''video/quicktime'') \<and>
            (e = ''.avi'' \<longrightarrow> validateVideoFile fs p = Inr ''video/x-msvideo'') \<and>
            (e = ''.mkv'' \<longrightarrow> validateVideoFile fs p = Inr ''video/x-matroska'')) \<and>
         (e \<notin> {''.mp4'', ''.webm'', ''.mov'', ''.avi'', ''.mkv''} \<longrightarrow>
            validateVideoFile fs p = Inl (Error unsupported_format_message) \<and>
            (truthy key \<longrightarrow>
               remote_analyzeVideo key fs model p ap =
                 (Settled (Inr \<lparr>success = False, results = None,
                                error = Some unsupported_format_message\<rparr>), []))) \<and>
         (e = ''.mp4'' \<longrightarrow> mime_switch p = ''video/mp4'') \<and>
         (e = ''.webm'' \<longrightarrow> mime_switch p = ''video/webm'') \<and>
         (e = ''.mov'' \<longrightarrow> mime_switch p = ''video/quicktime'') \<and>
         (e \<notin> {''.mp4'', ''.webm'', ''.mov''} \<longrightarrow> mime_switch p = ''video/mp4'') \<and>
         (truthy key \<longrightarrow>
          (\<forall>i. i < length (select_prompts defaultPrompts ap) \<longrightarrow>
             model i (select_prompts defaultPrompts ap ! i)
               \<lparr>inline_data = fdata f, inline_mimeType = mime_switch p\<rparr> = Settled (Inr (t i))) \<longrightarrow>
            mcp_analyzeVideo key fs model p ap =
              (Settled (Inr \<lparr>success = True,
                    results = Some (map (\<lambda>i. \<lparr>prompt = select_prompts defaultPrompts ap ! i,
                                             analysis = t i\<rparr>)
                                      [0..<length (select_prompts defaultPrompts ap)]),
                    error = None\<rparr>),
               select_prompts defaultPrompts ap))"
proof -
  have hit: "\<And>x m. fsize f \<le> MAX_FILE_SIZE \<Longrightarrow> e = x \<Longrightarrow> map_of SUPPORTED_FORMATS x = Some m \<Longrightarrow>
      validateVideoFile fs p = Inr m"
    using validate_supported [of fs p f] assms by simp
  have table: "fsize f \<le> MAX_FILE_SIZE \<longrightarrow>
            (e = ''.mp4'' \<longrightarrow> validateVideoFile fs p = Inr ''video/mp4'') \<and>
            (e = ''.webm'' \<longrightarrow> validateVideoFile fs p = Inr ''video/webm'') \<and>
            (e = ''.mov'' \<longrightarrow> validateVideoFile fs p = Inr ''video/quicktime'') \<and>
            (e = ''.avi'' \<longrightarrow> validateVideoFile fs p = Inr ''video/x-msvideo'') \<and>
            (e = ''.mkv'' \<longrightarrow> validateVideoFile fs p = Inr ''video/x-matroska'')"
    using hit [OF _ _ supported_table(1)] hit [OF _ _ supported_table(2)]
      hit [OF _ _ supported_table(3)] hit [OF _ _ supported_table(4)]
      hit [OF _ _ supported_table(5)]
    by (intro impI conjI) assumption+
  have other: "e \<notin> {''.mp4'', ''.webm'', ''.mov'', ''.avi'', ''.mkv''} \<longrightarrow>
      validateVideoFile fs p = Inl (Error unsupported_format_message)"
  proof
    assume "e \<notin> {''.mp4'', ''.webm'', ''.mov'', ''.avi'', ''.mkv''}"
    then have "map_of SUPPORTED_FORMATS e = None"
      by (rule iffD2 [OF supported_extensions])
    then show "validateVideoFile fs p = Inl (Error unsupported_format_message)"
      using validate_unsupported [of fs p f] assms by simp
  qed
  have stop: "e \<notin> {''.mp4'', ''.webm'', ''.mov'', ''.avi'', ''.mkv''} \<longrightarrow>
      validateVideoFile fs p = Inl (Error unsupported_format_message) \<and>
      (truthy key \<longrightarrow>
         remote_analyzeVideo key fs model p ap =
           (Settled (Inr \<lparr>success = False, results = None,
                          error = Some unsupported_format_message\<rparr>), []))"
  proof (intro impI conjI)
    assume ext: "e \<notin> {''.mp4'', ''.webm'', ''.mov'', ''.avi'', ''.mkv''}"
    show invalid: "validateVideoFile fs p = Inl (Error unsupported_format_message)"
      using other ext by (rule mp)
    assume "truthy key"
    then show "remote_analyzeVideo key fs model p ap =
        (Settled (Inr \<lparr>success = False, results = None,
                       error = Some unsupported_format_message\<rparr>), [])"
      using remote_analyzeVideo_invalid [of key fs p "Error unsupported_format_message" model ap]
        invalid
      by (simp add: failure_result_def)
  qed
  have mp4: "e = ''.mp4'' \<longrightarrow> mime_switch p = ''video/mp4''"
    using mime_switch_mapped(1) [of p] assms(2) by simp
  have webm: "e = ''.webm'' \<longrightarrow> mime_switch p = ''video/webm''"
    using mime_switch_mapped(2) [of p] assms(2) by simp
  have mov: "e = ''.mov'' \<longrightarrow> mime_switch p = ''video/quicktime''"
    using mime_switch_mapped(3) [of p] assms(2) by simp
  have switch: "e \<notin> {''.mp4'', ''.webm'', ''.mov''} \<longrightarrow> mime_switch p = ''video/mp4''"
    using mime_switch_default [of p] assms(2) by simp
  have proceeds: "truthy key \<longrightarrow>
      (\<forall>i. i < length (select_prompts defaultPrompts ap) \<longrightarrow>
         model i (select_prompts defaultPrompts ap ! i)
           \<lparr>inline_data = fdata f, inline_mimeType = mime_switch p\<rparr> = Settled (Inr (t i))) \<longrightarrow>
      mcp_analyzeVideo key fs model p ap =
        (Settled (Inr \<lparr>success = True,
              results = Some (map (\<lambda>i. \<lparr>prompt = select_prompts defaultPrompts ap ! i,
                                       analysis = t i\<rparr>)
                                [0..<length (select_prompts defaultPrompts ap)]),
              error = None\<rparr>),
         select_prompts defaultPrompts ap)"
  proof (intro impI)
    assume key: "truthy key"
      and answers: "\<forall>i. i < length (select_prompts defaultPrompts ap) \<longrightarrow>
         model i (select_prompts defaultPrompts ap ! i)
           \<lparr>inline_data = fdata f, inline_mimeType = mime_switch p\<rparr> = Settled (Inr (t i))"
    have body: "analysis_body defaultPrompts fs model p (mime_switch p) ap =
        (Settled \<lparr>success = True,
              results = Some (map (\<lambda>i. \<lparr>prompt = select_prompts defaultPrompts ap ! i,
                                       analysis = t i\<rparr>)
                                [0..<length (select_prompts defaultPrompts ap)]),
              error = None\<rparr>,
         select_prompts defaultPrompts ap)"
      using analysis_body_success
          [where fs = fs and p = p and f = f and t = t and model = model
             and defaults = defaultPrompts and ap = ap and m = "mime_switch p"]
        assms(1) answers
      by simp
    show "mcp_analyzeVideo key fs model p ap =
        (Settled (Inr \<lparr>success = True,
              results = Some (map (\<lambda>i. \<lparr>prompt = select_prompts defaultPrompts ap ! i,
                                       analysis = t i\<rparr>)
                                [0..<length (select_prompts defaultPrompts ap)]),
              error = None\<rparr>),
         select_prompts defaultPrompts ap)"
      unfolding mcp_analyzeVideo_body [OF key] body returned_simps by (rule refl)
  qed
  show ?thesis
    by (rule conjI [OF table conjI [OF stop conjI [OF mp4 conjI [OF webm conjI [OF mov
          conjI [OF switch proceeds]]]]]])
qed

theorem validate_mime_table_witness:
  "validateVideoFile [''/videos/clip.AVI'' \<mapsto> \<lparr>fsize = 5, fdata = ''hello''\<rparr>] ''/videos/clip.AVI'' =
     Inr ''video/x-msvideo'' \<and>
   validateVideoFile [''/videos/notes.txt'' \<mapsto> \<lparr>fsize = 5, fdata = ''hello''\<rparr>] ''/videos/notes.txt'' =
     Inl (Error unsupported_format_message) \<and>
   remote_analyzeVideo (Some ''key'') [''/videos/notes.txt'' \<mapsto> \<lparr>fsize = 5, fdata = ''hello''\<rparr>]
       (\<lambda>n q v. Settled (Inr ''fine'')) ''/videos/notes.txt'' None =
     (Settled (Inr \<lparr>success = False, results = None, error = Some unsupported_format_message\<rparr>),
      []) \<and>
   mime_switch ''/videos/notes.txt'' = ''video/mp4'' \<and>
   mime_switch ''/videos/clip.WebM'' = ''video/webm'' \<and>
   mcp_analyzeVideo (Some ''key'') [''/videos/clip.WebM'' \<mapsto> \<lparr>fsize = 5, fdata = ''hello''\<rparr>]
       (\<lambda>n q v. if inline_mimeType v = ''video/webm'' then Settled (Inr ''fine'')
                  else Settled (Inl (Error ''wrong type'')))
       ''/videos/clip.WebM'' (Some ''Describe'') =
     (Settled (Inr \<lparr>success = True,
           results = Some [\<lparr>prompt = ''Describe'', analysis = ''fine''\<rparr>],
           error = None\<rparr>), [''Describe''])"
proof -
  let ?picky = "\<lambda>(n::nat) (q::string) v.
      if inline_mimeType v = ''video/webm'' then Settled (Inr ''fine'')
      else Settled (Inl (Error ''wrong type''))"
  have avi: "''.avi'' = toLowerCase (extname ''/videos/clip.AVI'')"
    by (simp add: path_defs)
  have txt_ext: "''.txt'' = toLowerCase (extname ''/videos/notes.txt'')"
    by (simp add: path_defs)
  have webm_ext: "''.webm'' = toLowerCase (extname ''/videos/clip.WebM'')"
    by (simp add: path_defs)
  have small: "(5::nat) \<le> MAX_FILE_SIZE" by (simp add: MAX_FILE_SIZE_def)
  have key: "truthy (Some ''key'')" by (simp add: truthy_def)
  have first_part: "validateVideoFile [''/videos/clip.AVI'' \<mapsto> \<lparr>fsize = 5, fdata = ''hello''\<rparr>]
      ''/videos/clip.AVI'' = Inr ''video/x-msvideo''"
    using validate_mime_table
        [where fs = "[''/videos/clip.AVI'' \<mapsto> \<lparr>fsize = 5, fdata = ''hello''\<rparr>]"
           and p = "''/videos/clip.AVI''" and f = "\<lparr>fsize = 5, fdata = ''hello''\<rparr>"
           and e = "''.avi''", THEN conjunct1]
      avi small
    by simp
  have second_part: "validateVideoFile [''/videos/notes.txt'' \<mapsto> \<lparr>fsize = 5, fdata = ''hello''\<rparr>]
        ''/videos/notes.txt'' = Inl (Error unsupported_format_message) \<and>
      remote_analyzeVideo (Some ''key'') [''/videos/notes.txt'' \<mapsto> \<lparr>fsize = 5, fdata = ''hello''\<rparr>]
        (\<lambda>n q v. Settled (Inr ''fine'')) ''/videos/notes.txt'' None =
        (Settled (Inr \<lparr>success = False, results = None,
                       error = Some unsupported_format_message\<rparr>), [])"
    using validate_mime_table
        [where fs = "[''/videos/notes.txt'' \<mapsto> \<lparr>fsize = 5, fdata = ''hello''\<rparr>]"
           and p = "''/videos/notes.txt''" and f = "\<lparr>fsize = 5, fdata = ''hello''\<rparr>"
           and e = "''.txt''" and key = "Some ''key''"
           and model = "\<lambda>n q v. Settled (Inr ''fine'')" and ap = None,
         THEN conjunct2, THEN conjunct1]
      txt_ext key
    by simp
  have default_type: "mime_switch ''/videos/notes.txt'' = ''video/mp4''"
    using validate_mime_table
        [where fs = "[''/videos/notes.txt'' \<mapsto> \<lparr>fsize = 5, fdata = ''hello''\<rparr>]"
           and p = "''/videos/notes.txt''" and f = "\<lparr>fsize = 5, fdata = ''hello''\<rparr>"
           and e = "''.txt''",
         THEN conjunct2, THEN conjunct2, THEN conjunct2, THEN conjunct2, THEN conjunct2,
         THEN conjunct1]
      txt_ext
    by simp
  have webm_type: "mime_switch ''/videos/clip.WebM'' = ''video/webm''"
    using validate_mime_table
        [where fs = "[''/videos/clip.WebM'' \<mapsto> \<lparr>fsize = 5, fdata = ''hello''\<rparr>]"
           and p = "''/videos/clip.WebM''" and f = "\<lparr>fsize = 5, fdata = ''hello''\<rparr>"
           and e = "''.webm''",
         THEN conjunct2, THEN conjunct2, THEN conjunct2, THEN conjunct1]
      webm_ext
    by simp
  have third_part: "mcp_analyzeVideo (Some ''key'')
      [''/videos/clip.WebM'' \<mapsto> \<lparr>fsize = 5, fdata = ''hello''\<rparr>]
      ?picky ''/videos/clip.WebM'' (Some ''Describe'') =
     (Settled (Inr \<lparr>success = True,
           results = Some [\<lparr>prompt = ''Describe'', analysis = ''fine''\<rparr>],
           error = None\<rparr>), [''Describe''])"
    using validate_mime_table
        [where fs = "[''/videos/clip.WebM'' \<mapsto> \<lparr>fsize = 5, fdata = ''hello''\<rparr>]"
           and p = "''/videos/clip.WebM''" and f = "\<lparr>fsize = 5, fdata = ''hello''\<rparr>"
           and e = "''.webm''" and key = "Some ''key''" and model = ?picky
           and ap = "Some ''Describe''" and t = "\<lambda>i. ''fine''",
         THEN conjunct2, THEN conjunct2, THEN conjunct2, THEN conjunct2, THEN conjunct2,
         THEN conjunct2]
      webm_ext key webm_type
    by (simp add: select_prompts_def)
  show ?thesis
    by (rule conjI [OF first_part conjI [OF second_part [THEN conjunct1]
          conjI [OF second_part [THEN conjunct2] conjI [OF default_type
          conjI [OF webm_type third_part]]]]])
qed

text \<open>
  C3 as stated fails in mcp-server.js: \<open>clip.avi\<close> is given video/mp4 where the table has
  video/x-msvideo, and the analysis of \<open>notes.txt\<close> is not refused but succeeds.
\<close>

theorem mime_table_counterexample:
  "mime_switch ''/videos/clip.avi'' = ''video/mp4'' \<and>
   map_of SUPPORTED_FORMATS ''.avi'' = Some ''video/x-msvideo'' \<and>
   mcp_analyzeVideo (Some ''key'') [''/videos/notes.txt'' \<mapsto> \<lparr>fsize = 5, fdata = ''hello''\<rparr>]
       (\<lambda>n q v. Settled (Inr ''fine'')) ''/videos/notes.txt'' (Some ''Describe'') =
     (Settled (Inr \<lparr>success = True,
           results = Some [\<lparr>prompt = ''Describe'', analysis = ''fine''\<rparr>],
           error = None\<rparr>),
      [''Describe''])"
proof -
  have avi: "mime_switch ''/videos/clip.avi'' = ''video/mp4''"
    by (simp add: mime_switch_def path_defs)
  have run: "mcp_analyzeVideo (Some ''key'')
       [''/videos/notes.txt'' \<mapsto> \<lparr>fsize = 5, fdata = ''hello''\<rparr>]
       (\<lambda>n q v. Settled (Inr ''fine'')) ''/videos/notes.txt'' (Some ''Describe'') =
     (Settled (Inr \<lparr>success = True,
           results = Some [\<lparr>prompt = ''Describe'', analysis = ''fine''\<rparr>],
           error = None\<rparr>),
      [''Describe''])"
    by (simp add: mcp_analyzeVideo_def truthy_def analysis_body_def fileToGenerativePart_def
        readFileSync_def select_prompts_def returned_def)
  show ?thesis using avi run supported_table(4) by simp
qed

section \<open>C4: tagged results\<close>

text \<open>
  C4. Every value that \<open>analyzeVideo\<close> returns satisfies the tagged-result invariant:
  when \<open>success\<close> is true, \<open>results\<close> is present and non-empty and \<open>error\<close> is absent;
  when \<open>success\<close> is false, \<open>error\<close> is present and \<open>results\<close> is absent. This holds in
  all four servers; a call that throws (missing credential) or that is left pending
  by the provider returns no value.
\<close>

theorem analyze_result_tagged:
  "(fst (remote_analyzeVideo key fs model p ap) = Settled (Inr r) \<longrightarrow> tagged_invariant r) \<and>
   (fst (mcp_analyzeVideo key fs model p ap) = Settled (Inr r) \<longrightarrow> tagged_invariant r) \<and>
   (fst (stdio_analyzeVideo key fs model p ap) = Settled (Inr r) \<longrightarrow> tagged_invariant r) \<and>
   (fst (express_analyzeVideo fs model p ap) = Settled r \<longrightarrow> tagged_invariant r)"
proof -
  have d: "defaultPrompts \<noteq> []" using defaultPrompts_length by auto
  have e: "express_defaultPrompts \<noteq> []" using express_defaultPrompts_length by auto
  have body: "fst (returned (analysis_body defaultPrompts fs model p m ap)) = Settled (Inr r) \<Longrightarrow>
      tagged_invariant r" for m
    using analysis_body_tagged [OF d, of fs model p m ap r] by (simp add: returned_fst)
  have remote: "fst (remote_analyzeVideo key fs model p ap) = Settled (Inr r) \<longrightarrow>
      tagged_invariant r"
    using failure_result_tagged
    by (auto simp: remote_analyzeVideo_def dest: body split: if_splits sum.splits)
  have mcp: "fst (mcp_analyzeVideo key fs model p ap) = Settled (Inr r) \<longrightarrow> tagged_invariant r"
    by (auto simp: mcp_analyzeVideo_def dest: body split: if_splits)
  have stdio: "fst (stdio_analyzeVideo key fs model p ap) = Settled (Inr r) \<longrightarrow>
      tagged_invariant r"
    using failure_result_tagged
    by (auto simp: stdio_analyzeVideo_def dest: body split: if_splits sum.splits)
  have express: "fst (express_analyzeVideo fs model p ap) = Settled r \<longrightarrow> tagged_invariant r"
    using analysis_body_tagged [OF e, of fs model p "mime_switch p" ap r]
    by (simp add: express_analyzeVideo_def)
  show ?thesis by (rule conjI [OF remote conjI [OF mcp conjI [OF stdio express]]])
qed

theorem analyze_result_tagged_witness:
  "fst (remote_analyzeVideo (Some ''key'')
          [''/tmp/clip.mp4'' \<mapsto> \<lparr>fsize = 3, fdata = ''abc''\<rparr>]
          (\<lambda>n q v. Settled (Inr ''fine'')) ''/tmp/clip.mp4'' (Some ''Describe'')) =
     Settled (Inr \<lparr>success = True,
          results = Some [\<lparr>prompt = ''Describe'', analysis = ''fine''\<rparr>],
          error = None\<rparr>) \<and>
   tagged_invariant
     \<lparr>success = True,
      results = Some [\<lparr>prompt = ''Describe'', analysis = ''fine''\<rparr>],
      error = None\<rparr> \<and>
   fst (remote_analyzeVideo (Some ''key'') (\<lambda>p. None) (\<lambda>n q v. Settled (Inr ''fine''))
          ''/tmp/clip.mp4'' (Some ''Describe'')) =
     Settled (Inr \<lparr>success = False, results = None,
          error = Some ''File not found: /tmp/clip.mp4''\<rparr>) \<and>
   tagged_invariant
     \<lparr>success = False, results = None, error = Some ''File not found: /tmp/clip.mp4''\<rparr>"
proof -
  let ?ok = "\<lparr>success = True,
      results = Some [\<lparr>prompt = ''Describe'', analysis = ''fine''\<rparr>], error = None\<rparr>"
  let ?ko = "\<lparr>success = False, results = (None :: analysis_entry list option),
      error = Some ''File not found: /tmp/clip.mp4''\<rparr>"
  have run_ok: "fst (remote_analyzeVideo (Some ''key'')
          [''/tmp/clip.mp4'' \<mapsto> \<lparr>fsize = 3, fdata = ''abc''\<rparr>]
          (\<lambda>n q v. Settled (Inr ''fine'')) ''/tmp/clip.mp4'' (Some ''Describe'')) =
      Settled (Inr ?ok)"
    by (simp add: remote_analyzeVideo_def engine_defs path_defs)
  have run_ko: "fst (remote_analyzeVideo (Some ''key'') (\<lambda>p. None)
          (\<lambda>n q v. Settled (Inr ''fine'')) ''/tmp/clip.mp4'' (Some ''Describe'')) =
      Settled (Inr ?ko)"
    by (simp add: remote_analyzeVideo_def engine_defs not_found_message_def)
  from run_ok
    analyze_result_tagged [of "Some ''key''"
      "[''/tmp/clip.mp4'' \<mapsto> \<lparr>fsize = 3, fdata = ''abc''\<rparr>]"
      "\<lambda>n q v. Settled (Inr ''fine'')" "''/tmp/clip.mp4''" "Some ''Describe''" ?ok]
  have t_ok: "tagged_invariant ?ok" by blast
  from run_ko
    analyze_result_tagged [of "Some ''key''" "\<lambda>p. None"
      "\<lambda>n q v. Settled (Inr ''fine'')" "''/tmp/clip.mp4''" "Some ''Describe''" ?ko]
  have t_ko: "tagged_invariant ?ko" by blast
  show ?thesis by (rule conjI [OF run_ok conjI [OF t_ok conjI [OF run_ko t_ko]]])
qed

section \<open>C5: prompt selection\<close>

text \<open>
  C5. \<open>analyzeVideo\<close> selects its prompt list deterministically: the list is the
  custom prompt alone when that prompt is non-empty, and the fixed list of five
  distinct defaults when no prompt is supplied; on every path the provider calls
  issued are an initial segment of that list. When the credential is configured, the
  file is on disk (and, in remote-server.js, passes validation) and the provider
  answers every call: with a non-empty custom prompt exactly one provider call is
  issued, for that prompt, and the result is a success whose single entry has the
  prompt as its \<open>prompt\<close> field; with no prompt one call is issued per default prompt,
  in order, and the result holds five entries in the same order, each with the prompt
  it was produced for.
\<close>

theorem analyze_prompt_selection:
  "(\<exists>n \<le> length (select_prompts defaultPrompts ap).
      snd (remote_analyzeVideo key fs model p ap) = take n (select_prompts defaultPrompts ap)) \<and>
   (\<exists>n \<le> length (select_prompts defaultPrompts ap).
      snd (mcp_analyzeVideo key fs model p ap) = take n (select_prompts defaultPrompts ap)) \<and>
   (\<forall>q. q \<noteq> [] \<longrightarrow> select_prompts defaultPrompts (Some q) = [q]) \<and>
   select_prompts defaultPrompts None = defaultPrompts \<and>
   length defaultPrompts = 5 \<and> distinct defaultPrompts \<and>
   (truthy key \<longrightarrow> fs p = Some f \<longrightarrow>
    (\<forall>i part. i < length (select_prompts defaultPrompts ap) \<longrightarrow>
       model i (select_prompts defaultPrompts ap ! i) part = Settled (Inr (t i))) \<longrightarrow>
      (\<forall>q. ap = Some q \<and> q \<noteq> [] \<longrightarrow>
         (validateVideoFile fs p = Inr m \<longrightarrow>
            remote_analyzeVideo key fs model p ap =
              (Settled (Inr \<lparr>success = True,
                    results = Some [\<lparr>prompt = q, analysis = t 0\<rparr>],
                    error = None\<rparr>), [q])) \<and>
         mcp_analyzeVideo key fs model p ap =
           (Settled (Inr \<lparr>success = True,
                 results = Some [\<lparr>prompt = q, analysis = t 0\<rparr>],
                 error = None\<rparr>), [q])) \<and>
      (ap = None \<longrightarrow>
         (validateVideoFile fs p = Inr m \<longrightarrow>
            remote_analyzeVideo key fs model p ap =
              (Settled (Inr \<lparr>success = True,
                    results = Some (map (\<lambda>i. \<lparr>prompt = defaultPrompts ! i, analysis = t i\<rparr>)
                                      [0..<5]),
                    error = None\<rparr>), defaultPrompts)) \<and>
         mcp_analyzeVideo key fs model p ap =
           (Settled (Inr \<lparr>success = True,
                 results = Some (map (\<lambda>i. \<lparr>prompt = defaultPrompts ! i, analysis = t i\<rparr>)
                                   [0..<5]),
                 error = None\<rparr>), defaultPrompts)))"
proof -
  let ?ps = "select_prompts defaultPrompts ap"
  have custom_list: "\<forall>q. q \<noteq> [] \<longrightarrow> select_prompts defaultPrompts (Some q) = [q]"
    using select_prompts_custom by blast
  have success: "truthy key \<longrightarrow> fs p = Some f \<longrightarrow>
    (\<forall>i part. i < length ?ps \<longrightarrow> model i (?ps ! i) part = Settled (Inr (t i))) \<longrightarrow>
      (\<forall>q. ap = Some q \<and> q \<noteq> [] \<longrightarrow>
         (validateVideoFile fs p = Inr m \<longrightarrow>
            remote_analyzeVideo key fs model p ap =
              (Settled (Inr \<lparr>success = True,
                    results = Some [\<lparr>prompt = q, analysis = t 0\<rparr>],
                    error = None\<rparr>), [q])) \<and>
         mcp_analyzeVideo key fs model p ap =
           (Settled (Inr \<lparr>success = True,
                 results = Some [\<lparr>prompt = q, analysis = t 0\<rparr>],
                 error = None\<rparr>), [q])) \<and>
      (ap = None \<longrightarrow>
         (validateVideoFile fs p = Inr m \<longrightarrow>
            remote_analyzeVideo key fs model p ap =
              (Settled (Inr \<lparr>success = True,
                    results = Some (map (\<lambda>i. \<lparr>prompt = defaultPrompts ! i, analysis = t i\<rparr>)
                                      [0..<5]),
                    error = None\<rparr>), defaultPrompts)) \<and>
         mcp_analyzeVideo key fs model p ap =
           (Settled (Inr \<lparr>success = True,
                 results = Some (map (\<lambda>i. \<lparr>prompt = defaultPrompts ! i, analysis = t i\<rparr>)
                                   [0..<5]),
                 error = None\<rparr>), defaultPrompts))"
  proof (intro impI)
    assume key: "truthy key" and on_disk: "fs p = Some f"
      and answers: "\<forall>i part. i < length ?ps \<longrightarrow> model i (?ps ! i) part = Settled (Inr (t i))"
    note path = analyze_success_path [of key fs p f ap model t m, OF key on_disk]
    have remote: "validateVideoFile fs p = Inr m \<Longrightarrow>
        remote_analyzeVideo key fs model p ap =
          (Settled (Inr \<lparr>success = True,
                results = Some (map (\<lambda>i. \<lparr>prompt = ?ps ! i, analysis = t i\<rparr>) [0..<length ?ps]),
                error = None\<rparr>), ?ps)"
      using path answers by simp
    have mcp: "mcp_analyzeVideo key fs model p ap =
          (Settled (Inr \<lparr>success = True,
                results = Some (map (\<lambda>i. \<lparr>prompt = ?ps ! i, analysis = t i\<rparr>) [0..<length ?ps]),
                error = None\<rparr>), ?ps)"
      using path answers by simp
    have custom: "\<forall>q. ap = Some q \<and> q \<noteq> [] \<longrightarrow>
         (validateVideoFile fs p = Inr m \<longrightarrow>
            remote_analyzeVideo key fs model p ap =
              (Settled (Inr \<lparr>success = True,
                    results = Some [\<lparr>prompt = q, analysis = t 0\<rparr>],
                    error = None\<rparr>), [q])) \<and>
         mcp_analyzeVideo key fs model p ap =
           (Settled (Inr \<lparr>success = True,
                 results = Some [\<lparr>prompt = q, analysis = t 0\<rparr>],
                 error = None\<rparr>), [q])"
    proof (intro allI impI conjI)
      fix q
      assume q: "ap = Some q \<and> q \<noteq> []"
      then have ps: "?ps = [q]" using select_prompts_custom [of q defaultPrompts] by simp
      show "mcp_analyzeVideo key fs model p ap =
          (Settled (Inr \<lparr>success = True, results = Some [\<lparr>prompt = q, analysis = t 0\<rparr>],
                error = None\<rparr>), [q])"
        using mcp by (simp add: ps)
      assume "validateVideoFile fs p = Inr m"
      then show "remote_analyzeVideo key fs model p ap =
          (Settled (Inr \<lparr>success = True, results = Some [\<lparr>prompt = q, analysis = t 0\<rparr>],
                error = None\<rparr>), [q])"
        using remote by (simp add: ps)
    qed
    have absent: "ap = None \<longrightarrow>
         (validateVideoFile fs p = Inr m \<longrightarrow>
            remote_analyzeVideo key fs model p ap =
              (Settled (Inr \<lparr>success = True,
                    results = Some (map (\<lambda>i. \<lparr>prompt = defaultPrompts ! i, analysis = t i\<rparr>)
                                      [0..<5]),
                    error = None\<rparr>), defaultPrompts)) \<and>
         mcp_analyzeVideo key fs model p ap =
           (Settled (Inr \<lparr>success = True,
                 results = Some (map (\<lambda>i. \<lparr>prompt = defaultPrompts ! i, analysis = t i\<rparr>)
                                   [0..<5]),
                 error = None\<rparr>), defaultPrompts)"
    proof (intro impI conjI)
      assume "ap = None"
      then have ps: "?ps = defaultPrompts" using select_prompts_absent(1) by simp
      show "mcp_analyzeVideo key fs model p ap =
          (Settled (Inr \<lparr>success = True,
                results = Some (map (\<lambda>i. \<lparr>prompt = defaultPrompts ! i, analysis = t i\<rparr>) [0..<5]),
                error = None\<rparr>), defaultPrompts)"
        using mcp by (simp only: ps defaultPrompts_length)
      assume "validateVideoFile fs p = Inr m"
      then show "remote_analyzeVideo key fs model p ap =
          (Settled (Inr \<lparr>success = True,
                results = Some (map (\<lambda>i. \<lparr>prompt = defaultPrompts ! i, analysis = t i\<rparr>) [0..<5]),
                error = None\<rparr>), defaultPrompts)"
        using remote by (simp only: ps defaultPrompts_length)
    qed
    show "(\<forall>q. ap = Some q \<and> q \<noteq> [] \<longrightarrow>
         (validateVideoFile fs p = Inr m \<longrightarrow>
            remote_analyzeVideo key fs model p ap =
              (Settled (Inr \<lparr>success = True,
                    results = Some [\<lparr>prompt = q, analysis = t 0\<rparr>],
                    error = None\<rparr>), [q])) \<and>
         mcp_analyzeVideo key fs model p ap =
           (Settled (Inr \<lparr>success = True,
                 results = Some [\<lparr>prompt = q, analysis = t 0\<rparr>],
                 error = None\<rparr>), [q])) \<and>
      (ap = None \<longrightarrow>
         (validateVideoFile fs p = Inr m \<longrightarrow>
            remote_analyzeVideo key fs model p ap =
              (Settled (Inr \<lparr>success = True,
                    results = Some (map (\<lambda>i. \<lparr>prompt = defaultPrompts ! i, analysis = t i\<rparr>)
                                      [0..<5]),
                    error = None\<rparr>), defaultPrompts)) \<and>
         mcp_analyzeVideo key fs model p ap =
           (Settled (Inr \<lparr>success = True,
                 results = Some (map (\<lambda>i. \<lparr>prompt = defaultPrompts ! i, analysis = t i\<rparr>)
                                   [0..<5]),
                 error = None\<rparr>), defaultPrompts))"
      using custom absent by (rule conjI)
  qed
  show ?thesis
    by (rule conjI [OF remote_calls_prefix conjI [OF mcp_calls_prefix conjI [OF custom_list
          conjI [OF select_prompts_absent(1) conjI [OF defaultPrompts_length
          conjI [OF defaultPrompts_distinct success]]]]]])
qed

theorem analyze_prompt_selection_witness:
  "remote_analyzeVideo (Some ''key'') [''/tmp/clip.mp4'' \<mapsto> \<lparr>fsize = 3, fdata = ''abc''\<rparr>]
       (\<lambda>n q v. Settled (Inr ''fine'')) ''/tmp/clip.mp4'' (Some ''Summarise'') =
     (Settled (Inr \<lparr>success = True,
           results = Some [\<lparr>prompt = ''Summarise'', analysis = ''fine''\<rparr>],
           error = None\<rparr>), [''Summarise'']) \<and>
   mcp_analyzeVideo (Some ''key'') [''/tmp/clip.mp4'' \<mapsto> \<lparr>fsize = 3, fdata = ''abc''\<rparr>]
       (\<lambda>n q v. Settled (Inr ''fine'')) ''/tmp/clip.mp4'' None =
     (Settled (Inr \<lparr>success = True,
           results = Some (map (\<lambda>i. \<lparr>prompt = defaultPrompts ! i, analysis = ''fine''\<rparr>) [0..<5]),
           error = None\<rparr>), defaultPrompts)"
proof -
  let ?fs = "[''/tmp/clip.mp4'' \<mapsto> \<lparr>fsize = 3, fdata = ''abc''\<rparr>]"
  have key: "truthy (Some ''key'')" by (simp add: truthy_def)
  have on_disk: "?fs ''/tmp/clip.mp4'' = Some \<lparr>fsize = 3, fdata = ''abc''\<rparr>" by simp
  have custom: "remote_analyzeVideo (Some ''key'') ?fs (\<lambda>n q v. Settled (Inr ''fine'')) ''/tmp/clip.mp4''
      (Some ''Summarise'') =
     (Settled (Inr \<lparr>success = True,
           results = Some [\<lparr>prompt = ''Summarise'', analysis = ''fine''\<rparr>],
           error = None\<rparr>), [''Summarise''])"
    using analyze_prompt_selection
        [where key = "Some ''key''" and fs = ?fs and p = "''/tmp/clip.mp4''"
           and f = "\<lparr>fsize = 3, fdata = ''abc''\<rparr>" and ap = "Some ''Summarise''"
           and model = "\<lambda>n q v. Settled (Inr ''fine'')" and t = "\<lambda>i. ''fine''" and m = "''video/mp4''",
         THEN conjunct2, THEN conjunct2, THEN conjunct2, THEN conjunct2, THEN conjunct2,
         THEN conjunct2]
      key on_disk sample_clip_valid
    by simp
  have absent: "mcp_analyzeVideo (Some ''key'') ?fs (\<lambda>n q v. Settled (Inr ''fine'')) ''/tmp/clip.mp4'' None =
     (Settled (Inr \<lparr>success = True,
           results = Some (map (\<lambda>i. \<lparr>prompt = defaultPrompts ! i, analysis = ''fine''\<rparr>) [0..<5]),
           error = None\<rparr>), defaultPrompts)"
    using analyze_prompt_selection
        [where key = "Some ''key''" and fs = ?fs and p = "''/tmp/clip.mp4''"
           and f = "\<lparr>fsize = 3, fdata = ''abc''\<rparr>" and ap = None
           and model = "\<lambda>n q v. Settled (Inr ''fine'')" and t = "\<lambda>i. ''fine''" and m = "''video/mp4''",
         THEN conjunct2, THEN conjunct2, THEN conjunct2, THEN conjunct2, THEN conjunct2,
         THEN conjunct2]
      key on_disk
    by simp
  show ?thesis using custom absent by (rule conjI)
qed

section \<open>C6: failure of a provider call\<close>

text \<open>
  C6 (amended). If the provider call for the prompt at position \<open>k\<close> of the selected
  list throws (the calls before it having answered), \<open>analyzeVideo\<close> has issued calls
  for the first \<open>k + 1\<close> prompts only and returns \<open>success = false\<close>, no \<open>results\<close>, and as
  \<open>error\<close> the message of the thrown error, unchanged (so the error string is
  non-empty exactly when that message is).
\<close>

theorem analyze_stops_at_first_failure:
  assumes key: "truthy key" and on_disk: "fs p = Some f"
    and k: "k < length (select_prompts defaultPrompts ap)"
    and before: "\<And>i part. i < k \<Longrightarrow>
           model i (select_prompts defaultPrompts ap ! i) part = Settled (Inr (t i))"
    and throws: "\<And>part. model k (select_prompts defaultPrompts ap ! k) part = Settled (Inl e)"
  shows "(validateVideoFile fs p = Inr m \<longrightarrow>
            remote_analyzeVideo key fs model p ap =
              (Settled (Inr \<lparr>success = False, results = None, error = Some (message e)\<rparr>),
               take (Suc k) (select_prompts defaultPrompts ap))) \<and>
         mcp_analyzeVideo key fs model p ap =
           (Settled (Inr \<lparr>success = False, results = None, error = Some (message e)\<rparr>),
            take (Suc k) (select_prompts defaultPrompts ap)) \<and>
         length (take (Suc k) (select_prompts defaultPrompts ap)) = Suc k"
proof -
  have path: "(validateVideoFile fs p = Inr m \<longrightarrow>
            remote_analyzeVideo key fs model p ap =
              (Settled (Inr \<lparr>success = False, results = None, error = Some (message e)\<rparr>),
               take (Suc k) (select_prompts defaultPrompts ap))) \<and>
         mcp_analyzeVideo key fs model p ap =
           (Settled (Inr \<lparr>success = False, results = None, error = Some (message e)\<rparr>),
            take (Suc k) (select_prompts defaultPrompts ap))"
    by (rule analyze_failure_path [where f = f and t = t]) (use assms in simp_all)
  have issued: "length (take (Suc k) (select_prompts defaultPrompts ap)) = Suc k"
    using k by simp
  show ?thesis
    by (rule conjI [OF path [THEN conjunct1] conjI [OF path [THEN conjunct2] issued]])
qed

theorem analyze_stops_at_first_failure_witness:
  "remote_analyzeVideo (Some ''key'') [''/tmp/clip.mp4'' \<mapsto> \<lparr>fsize = 3, fdata = ''abc''\<rparr>]
       (\<lambda>n q v. if n < 2 then Settled (Inr ''fine'') else Settled (Inl (Error ''quota exceeded'')))
       ''/tmp/clip.mp4'' None =
     (Settled (Inr \<lparr>success = False, results = None, error = Some ''quota exceeded''\<rparr>),
      take 3 defaultPrompts) \<and>
   length (take 3 defaultPrompts) = 3"
proof -
  let ?fs = "[''/tmp/clip.mp4'' \<mapsto> \<lparr>fsize = 3, fdata = ''abc''\<rparr>]"
  let ?model = "\<lambda>(n::nat) (q::string) (v::video_part).
      if n < 2 then Settled (Inr ''fine'') else Settled (Inl (Error ''quota exceeded''))"
  have key: "truthy (Some ''key'')" by (simp add: truthy_def)
  have on_disk: "?fs ''/tmp/clip.mp4'' = Some \<lparr>fsize = 3, fdata = ''abc''\<rparr>" by simp
  have ps: "select_prompts defaultPrompts None = defaultPrompts"
    by (rule select_prompts_absent(1))
  have run: "remote_analyzeVideo (Some ''key'') ?fs ?model ''/tmp/clip.mp4'' None =
     (Settled (Inr \<lparr>success = False, results = None, error = Some ''quota exceeded''\<rparr>),
      take 3 defaultPrompts)"
    using analyze_stops_at_first_failure
        [where key = "Some ''key''" and fs = ?fs and p = "''/tmp/clip.mp4''"
           and f = "\<lparr>fsize = 3, fdata = ''abc''\<rparr>" and ap = None and k = 2
           and model = ?model and t = "\<lambda>i. ''fine''" and m = "''video/mp4''"
           and e = "Error ''quota exceeded''", THEN conjunct1]
      key on_disk sample_clip_valid
    by (simp add: ps defaultPrompts_length)
  show ?thesis using run by (simp add: defaultPrompts_length)
qed

text \<open>
  C6 as stated fails when the provider throws an error whose message is empty (as
  \<open>new Error()\<close> has): the result is a failure whose \<open>error\<close> is the empty string.
\<close>

theorem empty_error_message_counterexample:
  "remote_analyzeVideo (Some ''key'') [''/tmp/clip.mp4'' \<mapsto> \<lparr>fsize = 3, fdata = ''abc''\<rparr>]
       (\<lambda>n q v. if n < 2 then Settled (Inr ''fine'') else Settled (Inl (Error [])))
       ''/tmp/clip.mp4'' None =
     (Settled (Inr \<lparr>success = False, results = None, error = Some []\<rparr>),
      take 3 defaultPrompts) \<and>
   mcp_analyzeVideo (Some ''key'') [''/tmp/clip.mp4'' \<mapsto> \<lparr>fsize = 3, fdata = ''abc''\<rparr>]
       (\<lambda>n q v. if n < 2 then Settled (Inr ''fine'') else Settled (Inl (Error [])))
       ''/tmp/clip.mp4'' None =
     (Settled (Inr \<lparr>success = False, results = None, error = Some []\<rparr>),
      take 3 defaultPrompts)"
proof -
  let ?fs = "[''/tmp/clip.mp4'' \<mapsto> \<lparr>fsize = 3, fdata = ''abc''\<rparr>]"
  let ?model = "\<lambda>(n::nat) (q::string) (v::video_part).
      if n < 2 then Settled (Inr ''fine'') else Settled (Inl (Error []))"
  have key: "truthy (Some ''key'')" by (simp add: truthy_def)
  have on_disk: "?fs ''/tmp/clip.mp4'' = Some \<lparr>fsize = 3, fdata = ''abc''\<rparr>" by simp
  have ps: "select_prompts defaultPrompts None = defaultPrompts"
    by (rule select_prompts_absent(1))
  have both: "(validateVideoFile ?fs ''/tmp/clip.mp4'' = Inr ''video/mp4'' \<longrightarrow>
        remote_analyzeVideo (Some ''key'') ?fs ?model ''/tmp/clip.mp4'' None =
          (Settled (Inr \<lparr>success = False, results = None, error = Some []\<rparr>),
           take 3 defaultPrompts)) \<and>
      mcp_analyzeVideo (Some ''key'') ?fs ?model ''/tmp/clip.mp4'' None =
        (Settled (Inr \<lparr>success = False, results = None, error = Some []\<rparr>),
         take 3 defaultPrompts)"
    using analyze_failure_path
        [where key = "Some ''key''" and fs = ?fs and p = "''/tmp/clip.mp4''"
           and f = "\<lparr>fsize = 3, fdata = ''abc''\<rparr>" and ap = None and k = 2
           and model = ?model and t = "\<lambda>i. ''fine''" and m = "''video/mp4''"
           and e = "Error []"]
      key on_disk
    by (simp add: ps defaultPrompts_length)
  show ?thesis
    using both sample_clip_valid by blast
qed

section \<open>C7: authentication policy\<close>

text \<open>
  C7 (amended). With authentication enabled and a non-empty API key configured: a
  request whose supplied key equals the secret is granted, the supplied key being the
  \<open>x-api-key\<close> header when that header is non-empty and the \<open>api_key\<close> query parameter
  otherwise (for a WebSocket handshake, the \<open>api_key\<close> parameter of the URL); a request
  whose supplied key is absent or different and that carries no valid signed token is
  rejected as unauthenticated; a request that carries a valid signed token is granted
  although its key is absent or different.
\<close>

theorem authenticate_policy:
  assumes enabled: "ENABLE_AUTH cfg" and secret: "API_KEY cfg = Some k" and k: "k \<noteq> []"
  shows "(providedKey req = Some k \<longrightarrow> authenticate cfg jwt_verify req = Next None) \<and>
         (providedKey req \<noteq> Some k \<and> verified_claims jwt_verify (bearer_token req) = None \<longrightarrow>
            authenticate cfg jwt_verify req = Unauthorized) \<and>
         (providedKey req \<noteq> Some k \<and> verified_claims jwt_verify (bearer_token req) = Some c \<longrightarrow>
            authenticate cfg jwt_verify req = Next (Some c)) \<and>
         (url_param ''api_key='' url = Some k \<longrightarrow>
            ws_on_connection cfg jwt_verify url = (True, [ConnectedMsg])) \<and>
         (url_param ''api_key='' url \<noteq> Some k \<and>
          verified_claims jwt_verify (url_param ''token='' url) = None \<longrightarrow>
            ws_on_connection cfg jwt_verify url = (False, [AuthRequiredMsg])) \<and>
         (verified_claims jwt_verify (url_param ''token='' url) = Some c \<longrightarrow>
            ws_on_connection cfg jwt_verify url = (True, [ConnectedMsg]))"
proof -
  have t: "truthy (API_KEY cfg)" using secret k by (simp add: truthy_def)
  have granted: "providedKey req = Some k \<longrightarrow> authenticate cfg jwt_verify req = Next None"
    using enabled secret t by (simp add: authenticate_def)
  have rejected: "providedKey req \<noteq> Some k \<and>
      verified_claims jwt_verify (bearer_token req) = None \<longrightarrow>
      authenticate cfg jwt_verify req = Unauthorized"
    using enabled secret t by (simp add: authenticate_def)
  have token: "providedKey req \<noteq> Some k \<and>
      verified_claims jwt_verify (bearer_token req) = Some c \<longrightarrow>
      authenticate cfg jwt_verify req = Next (Some c)"
    using enabled secret t by (simp add: authenticate_def)
  have verified_truthy: "truthy tok" if "verified_claims jwt_verify tok = Some c" for tok
    using that by (auto simp: verified_claims_def truthy_def split: option.splits if_splits)
  have unverified: "verified_claims jwt_verify tok \<noteq> None \<longrightarrow> truthy tok" for tok
    by (auto simp: verified_claims_def truthy_def split: option.splits if_splits)
  have ws_granted: "url_param ''api_key='' url = Some k \<longrightarrow>
      ws_on_connection cfg jwt_verify url = (True, [ConnectedMsg])"
    using secret t by (simp add: ws_on_connection_def ws_authenticated_def)
  have ws_rejected: "url_param ''api_key='' url \<noteq> Some k \<and>
      verified_claims jwt_verify (url_param ''token='' url) = None \<longrightarrow>
      ws_on_connection cfg jwt_verify url = (False, [AuthRequiredMsg])"
    using enabled secret t by (simp add: ws_on_connection_def ws_authenticated_def Let_def)
  have ws_token: "verified_claims jwt_verify (url_param ''token='' url) = Some c \<longrightarrow>
      ws_on_connection cfg jwt_verify url = (True, [ConnectedMsg])"
    using secret t verified_truthy [of "url_param ''token='' url"]
    by (auto simp: ws_on_connection_def ws_authenticated_def Let_def)
  show ?thesis
    by (rule conjI [OF granted conjI [OF rejected conjI [OF token
          conjI [OF ws_granted conjI [OF ws_rejected ws_token]]]]])
qed

theorem authenticate_policy_witness:
  "authenticate \<lparr>ENABLE_AUTH = True, API_KEY = Some ''s3cret''\<rparr> (\<lambda>t. None)
       \<lparr>header_x_api_key = None, query_api_key = Some ''s3cret'', header_authorization = None\<rparr> =
     Next None \<and>
   authenticate \<lparr>ENABLE_AUTH = True, API_KEY = Some ''s3cret''\<rparr> (\<lambda>t. None)
       \<lparr>header_x_api_key = Some ''guess'', query_api_key = None, header_authorization = None\<rparr> =
     Unauthorized \<and>
   authenticate \<lparr>ENABLE_AUTH = True, API_KEY = Some ''s3cret''\<rparr>
       (\<lambda>t. if t = ''good.jwt'' then Some ''admin'' else None)
       \<lparr>header_x_api_key = None, query_api_key = None,
        header_authorization = Some ''Bearer good.jwt''\<rparr> =
     Next (Some ''admin'') \<and>
   ws_on_connection \<lparr>ENABLE_AUTH = True, API_KEY = Some ''s3cret''\<rparr> (\<lambda>t. None)
       ''/ws/mcp?api_key=s3cret'' = (True, [ConnectedMsg]) \<and>
   ws_on_connection \<lparr>ENABLE_AUTH = True, API_KEY = Some ''s3cret''\<rparr> (\<lambda>t. None)
       ''/ws/mcp?api_key=guess'' = (False, [AuthRequiredMsg]) \<and>
   ws_on_connection \<lparr>ENABLE_AUTH = True, API_KEY = Some ''s3cret''\<rparr>
       (\<lambda>t. if t = ''good.jwt'' then Some ''admin'' else None)
       ''/ws/mcp?token=good.jwt'' = (True, [ConnectedMsg])"
proof -
  let ?cfg = "\<lparr>ENABLE_AUTH = True, API_KEY = Some ''s3cret''\<rparr>"
  let ?jwt = "\<lambda>t. if t = ''good.jwt'' then Some ''admin'' else None"
  have enabled: "ENABLE_AUTH ?cfg" by simp
  have secret: "API_KEY ?cfg = Some ''s3cret''" by simp
  have k: "''s3cret'' \<noteq> []" by simp
  note policy = authenticate_policy [OF enabled secret k]
  have p1: "authenticate ?cfg (\<lambda>t. None)
       \<lparr>header_x_api_key = None, query_api_key = Some ''s3cret'', header_authorization = None\<rparr> =
     Next None"
    using policy [where req = "\<lparr>header_x_api_key = None, query_api_key = Some ''s3cret'',
        header_authorization = None\<rparr>" and jwt_verify = "\<lambda>t. None", THEN conjunct1]
    by (simp add: providedKey_def truthy_def)
  have p2: "authenticate ?cfg (\<lambda>t. None)
       \<lparr>header_x_api_key = Some ''guess'', query_api_key = None, header_authorization = None\<rparr> =
     Unauthorized"
    using policy [where req = "\<lparr>header_x_api_key = Some ''guess'', query_api_key = None,
        header_authorization = None\<rparr>" and jwt_verify = "\<lambda>t. None",
        THEN conjunct2, THEN conjunct1]
    by (simp add: providedKey_def truthy_def verified_claims_def bearer_token_def)
  have p3: "authenticate ?cfg ?jwt
       \<lparr>header_x_api_key = None, query_api_key = None,
        header_authorization = Some ''Bearer good.jwt''\<rparr> = Next (Some ''admin'')"
    using policy [where req = "\<lparr>header_x_api_key = None, query_api_key = None,
        header_authorization = Some ''Bearer good.jwt''\<rparr>" and jwt_verify = ?jwt
        and c = "''admin''", THEN conjunct2, THEN conjunct2, THEN conjunct1]
    by (simp add: providedKey_def truthy_def verified_claims_def bearer_token_def second_def
        js_split_def)
  have p4: "ws_on_connection ?cfg (\<lambda>t. None) ''/ws/mcp?api_key=s3cret'' = (True, [ConnectedMsg])"
    using policy [where url = "''/ws/mcp?api_key=s3cret''" and jwt_verify = "\<lambda>t. None",
        THEN conjunct2, THEN conjunct2, THEN conjunct2, THEN conjunct1]
    by (simp add: url_param_def second_def first_def js_split_def)
  have p5: "ws_on_connection ?cfg (\<lambda>t. None) ''/ws/mcp?api_key=guess'' = (False, [AuthRequiredMsg])"
    using policy [where url = "''/ws/mcp?api_key=guess''" and jwt_verify = "\<lambda>t. None",
        THEN conjunct2, THEN conjunct2, THEN conjunct2, THEN conjunct2, THEN conjunct1]
    by (simp add: url_param_def second_def first_def js_split_def verified_claims_def)
  have p6: "ws_on_connection ?cfg ?jwt ''/ws/mcp?token=good.jwt'' = (True, [ConnectedMsg])"
    using policy [where url = "''/ws/mcp?token=good.jwt''" and jwt_verify = ?jwt
        and c = "''admin''",
        THEN conjunct2, THEN conjunct2, THEN conjunct2, THEN conjunct2, THEN conjunct2]
    by (simp add: url_param_def second_def first_def js_split_def verified_claims_def)
  show ?thesis
    by (rule conjI [OF p1 conjI [OF p2 conjI [OF p3 conjI [OF p4 conjI [OF p5 p6]]]]])
qed

text \<open>
  C7 as stated fails for a request that carries the correct secret in the query
  parameter together with another, non-empty \<open>x-api-key\<close> header: the header wins and
  the request is rejected.
\<close>

theorem query_key_masked_counterexample:
  "authenticate \<lparr>ENABLE_AUTH = True, API_KEY = Some ''s3cret''\<rparr> (\<lambda>t. None)
       \<lparr>header_x_api_key = Some ''stale'', query_api_key = Some ''s3cret'',
        header_authorization = None\<rparr> =
     Unauthorized \<and>
   query_api_key \<lparr>header_x_api_key = Some ''stale'', query_api_key = Some ''s3cret'',
        header_authorization = None\<rparr> =
     API_KEY \<lparr>ENABLE_AUTH = True, API_KEY = Some ''s3cret''\<rparr>"
  by (simp add: auth_defs)

section \<open>C8: size ceiling\<close>

text \<open>
  C8 (amended). For every on-disk file, \<open>validateVideoFile\<close> fails with the too-large
  error exactly when the file's extension is in the supported table and its size
  strictly exceeds the ceiling of 100MB (104857600 bytes); a file of a supported
  extension whose size is at or under the ceiling passes and gets its MIME type. The
  extension is checked before the size, so a file of an unsupported extension fails
  with the unsupported-format error whatever its size.
\<close>

theorem size_check_after_extension:
  assumes "fs p = Some f"
  shows "(validateVideoFile fs p = Inl (Error too_large_message)) =
           (map_of SUPPORTED_FORMATS (toLowerCase (extname p)) \<noteq> None \<and> MAX_FILE_SIZE < fsize f) \<and>
         (map_of SUPPORTED_FORMATS (toLowerCase (extname p)) = Some m \<longrightarrow> fsize f \<le> MAX_FILE_SIZE \<longrightarrow>
            validateVideoFile fs p = Inr m) \<and>
         (map_of SUPPORTED_FORMATS (toLowerCase (extname p)) = None \<longrightarrow>
            validateVideoFile fs p = Inl (Error unsupported_format_message)) \<and>
         MAX_FILE_SIZE = 104857600"
proof (cases "map_of SUPPORTED_FORMATS (toLowerCase (extname p))")
  case None
  then show ?thesis
    using validate_unsupported [of fs p f] assms unsupported_not_too_large
    by (simp add: MAX_FILE_SIZE_def)
next
  case (Some m')
  show ?thesis
  proof (cases "MAX_FILE_SIZE < fsize f")
    case True
    then show ?thesis
      using validate_too_large [of fs p f m'] assms Some by (simp add: MAX_FILE_SIZE_def)
  next
    case False
    then have "validateVideoFile fs p = Inr m'"
      using validate_supported [of fs p f m'] assms Some by simp
    then show ?thesis using Some False by (simp add: MAX_FILE_SIZE_def)
  qed
qed

theorem size_check_after_extension_witness:
  "validateVideoFile [''/tmp/clip.mp4'' \<mapsto> \<lparr>fsize = 104857601, fdata = []\<rparr>] ''/tmp/clip.mp4'' =
     Inl (Error too_large_message) \<and>
   validateVideoFile [''/tmp/clip.mp4'' \<mapsto> \<lparr>fsize = 104857600, fdata = []\<rparr>] ''/tmp/clip.mp4'' =
     Inr ''video/mp4''"
proof -
  have ext: "map_of SUPPORTED_FORMATS (toLowerCase (extname ''/tmp/clip.mp4'')) = Some ''video/mp4''"
    by (simp add: SUPPORTED_FORMATS_def path_defs)
  have over: "validateVideoFile [''/tmp/clip.mp4'' \<mapsto> \<lparr>fsize = 104857601, fdata = []\<rparr>]
      ''/tmp/clip.mp4'' = Inl (Error too_large_message)"
    using size_check_after_extension
        [of "[''/tmp/clip.mp4'' \<mapsto> \<lparr>fsize = 104857601, fdata = []\<rparr>]" "''/tmp/clip.mp4''"
          "\<lparr>fsize = 104857601, fdata = []\<rparr>" "''video/mp4''"]
    by (simp add: ext MAX_FILE_SIZE_def)
  have at: "validateVideoFile [''/tmp/clip.mp4'' \<mapsto> \<lparr>fsize = 104857600, fdata = []\<rparr>]
      ''/tmp/clip.mp4'' = Inr ''video/mp4''"
    using size_check_after_extension
        [of "[''/tmp/clip.mp4'' \<mapsto> \<lparr>fsize = 104857600, fdata = []\<rparr>]" "''/tmp/clip.mp4''"
          "\<lparr>fsize = 104857600, fdata = []\<rparr>" "''video/mp4''"]
    by (simp add: ext MAX_FILE_SIZE_def)
  show ?thesis using over at by simp
qed

text \<open>
  C8 as stated fails for an on-disk file of 200MB named \<open>big.txt\<close>: its size exceeds
  the ceiling, and validation fails with the unsupported-format error, not with the
  too-large error.
\<close>

theorem size_check_counterexample:
  "validateVideoFile [''/data/big.txt'' \<mapsto> \<lparr>fsize = 209715200, fdata = []\<rparr>] ''/data/big.txt'' =
     Inl (Error unsupported_format_message) \<and>
   validateVideoFile [''/data/big.txt'' \<mapsto> \<lparr>fsize = 209715200, fdata = []\<rparr>] ''/data/big.txt'' \<noteq>
     Inl (Error too_large_message) \<and>
   MAX_FILE_SIZE < 209715200"
proof -
  have ext: "map_of SUPPORTED_FORMATS (toLowerCase (extname ''/data/big.txt'')) = None"
    by (simp add: SUPPORTED_FORMATS_def path_defs)
  have "validateVideoFile [''/data/big.txt'' \<mapsto> \<lparr>fsize = 209715200, fdata = []\<rparr>] ''/data/big.txt'' =
     Inl (Error unsupported_format_message)"
    using validate_unsupported
        [of "[''/data/big.txt'' \<mapsto> \<lparr>fsize = 209715200, fdata = []\<rparr>]" "''/data/big.txt''"
          "\<lparr>fsize = 209715200, fdata = []\<rparr>"] ext
    by simp
  then show ?thesis
    using unsupported_not_too_large by (simp add: MAX_FILE_SIZE_def)
qed

section \<open>C9: WebSocket replies\<close>

text \<open>
  C9 (amended). For every inbound WebSocket frame the message handler sends at most
  one message, and what it sends is a tool list, a tool result, an error or a pong;
  the answer to a \<open>call_tool\<close> carries the request's id. A frame that is not a
  \<open>call_tool\<close> (\<open>list_tools\<close>, \<open>ping\<close>, an unknown type, text that does not parse) is answered
  by exactly one message, and so is a \<open>call_tool\<close> whenever every download and every
  provider call settles. No message is sent exactly when the frame is a \<open>call_tool\<close>
  whose tool call never settles.
\<close>

theorem ws_at_most_one_reply:
  "length (fst (ws_on_message key net model fs tmp payload)) \<le> 1 \<and>
   (\<forall>r \<in> set (fst (ws_on_message key net model fs tmp payload)).
      is_reply r \<and>
      (\<forall>d. payload = Parsed d \<and> data_type d = Some ''call_tool'' \<longrightarrow> reply_id r = data_id d)) \<and>
   ((\<forall>d. payload = Parsed d \<longrightarrow> data_type d \<noteq> Some ''call_tool'') \<longrightarrow>
      length (fst (ws_on_message key net model fs tmp payload)) = 1) \<and>
   ((\<forall>u. download_settles (net u)) \<and> (\<forall>n q v. model n q v \<noteq> Never) \<longrightarrow>
      length (fst (ws_on_message key net model fs tmp payload)) = 1) \<and>
   (fst (ws_on_message key net model fs tmp payload) = []) =
     (\<exists>d. payload = Parsed d \<and> data_type d = Some ''call_tool'' \<and>
          fst (ws_tool_switch key net model fs tmp d) = Never)"
proof -
  let ?out = "fst (ws_on_message key net model fs tmp payload)"
  have none_iff: "(?out = []) =
      (\<exists>d. payload = Parsed d \<and> data_type d = Some ''call_tool'' \<and>
           fst (ws_tool_switch key net model fs tmp d) = Never)"
    by (auto simp: ws_on_message_def
        split: ws_payload.splits prod.splits sum.splits awaited.splits)
  have at_most: "length ?out \<le> 1"
    by (auto simp: ws_on_message_def
        split: ws_payload.splits prod.splits sum.splits awaited.splits)
  have shape: "\<forall>r \<in> set ?out. is_reply r \<and>
      (\<forall>d. payload = Parsed d \<and> data_type d = Some ''call_tool'' \<longrightarrow> reply_id r = data_id d)"
    by (auto simp: ws_on_message_def
        split: ws_payload.splits prod.splits sum.splits awaited.splits if_splits)
  have one: "length ?out = 1" if "?out \<noteq> []"
    using at_most that by (cases ?out) auto
  have other: "(\<forall>d. payload = Parsed d \<longrightarrow> data_type d \<noteq> Some ''call_tool'') \<longrightarrow>
      length ?out = 1"
  proof
    assume "\<forall>d. payload = Parsed d \<longrightarrow> data_type d \<noteq> Some ''call_tool''"
    then have "?out \<noteq> []" unfolding none_iff by blast
    then show "length ?out = 1" by (rule one)
  qed
  have settled: "(\<forall>u. download_settles (net u)) \<and> (\<forall>n q v. model n q v \<noteq> Never) \<longrightarrow>
      length ?out = 1"
  proof
    assume h: "(\<forall>u. download_settles (net u)) \<and> (\<forall>n q v. model n q v \<noteq> Never)"
    have "fst (ws_tool_switch key net model fs tmp d) \<noteq> Never" for d
      by (rule ws_tool_switch_settles) (use h in simp_all)
    then have "?out \<noteq> []" unfolding none_iff by blast
    then show "length ?out = 1" by (rule one)
  qed
  show ?thesis
    by (rule conjI [OF at_most conjI [OF shape conjI [OF other conjI [OF settled none_iff]]]])
qed

theorem ws_at_most_one_reply_witness:
  "fst (ws_on_message (Some ''key'') (\<lambda>url. Response True ''OK'' (Complete ''abc''))
          (\<lambda>n q v. Settled (Inr ''fine'')) (\<lambda>p. None) ''/tmp/t.mp4''
          (Parsed \<lparr>data_type = Some ''call_tool'', data_tool = Some ''analyze_video_url'',
                   data_arguments = ArgsFields
                     [''video_url'' \<mapsto> ''https://example.com/clip.mp4'',
                      ''analysis_prompt'' \<mapsto> ''Describe''],
                   data_id = Some 7\<rparr>)) =
     [ToolResultMsg (Some 7)
        \<lparr>success = True, results = Some [\<lparr>prompt = ''Describe'', analysis = ''fine''\<rparr>],
         error = None\<rparr>] \<and>
   length (fst (ws_on_message (Some ''key'') (\<lambda>url. Response True ''OK'' (Complete ''abc''))
          (\<lambda>n q v. Settled (Inr ''fine'')) (\<lambda>p. None) ''/tmp/t.mp4''
          (Parsed \<lparr>data_type = Some ''call_tool'', data_tool = Some ''analyze_video_url'',
                   data_arguments = ArgsFields
                     [''video_url'' \<mapsto> ''https://example.com/clip.mp4'',
                      ''analysis_prompt'' \<mapsto> ''Describe''],
                   data_id = Some 7\<rparr>))) = 1 \<and>
   length (fst (ws_on_message (Some ''key'') (\<lambda>url. FetchPending)
          (\<lambda>n q v. Settled (Inr ''fine'')) (\<lambda>p. None) ''/tmp/t.mp4''
          (Parsed \<lparr>data_type = Some ''ping'', data_tool = None,
                   data_arguments = ArgsUndefined, data_id = None\<rparr>))) = 1"
proof -
  let ?net = "\<lambda>url :: string. Response True ''OK'' (Complete ''abc'')"
  let ?model = "\<lambda>(n::nat) (q::string) (v::video_part). Settled (Inr ''fine'')
      :: (js_error + string) awaited"
  let ?d = "\<lparr>data_type = Some ''call_tool'', data_tool = Some ''analyze_video_url'',
      data_arguments = ArgsFields
        [''video_url'' \<mapsto> ''https://example.com/clip.mp4'',
         ''analysis_prompt'' \<mapsto> ''Describe''],
      data_id = Some (7::nat)\<rparr>"
  let ?ping = "\<lparr>data_type = Some ''ping'', data_tool = None,
      data_arguments = ArgsUndefined, data_id = (None :: nat option)\<rparr>"
  have run: "fst (ws_on_message (Some ''key'') ?net ?model (\<lambda>p. None) ''/tmp/t.mp4''
        (Parsed ?d)) =
      [ToolResultMsg (Some 7)
        \<lparr>success = True, results = Some [\<lparr>prompt = ''Describe'', analysis = ''fine''\<rparr>],
         error = None\<rparr>]"
    by (simp add: ws_on_message_def ws_tool_switch_def remote_url_block_def downloadFile_def
        remote_analyzeVideo_def engine_defs path_defs unlink_if_exists_def existsSync_def
        unlinkSync_def)
  have one: "length (fst (ws_on_message (Some ''key'') ?net ?model (\<lambda>p. None) ''/tmp/t.mp4''
        (Parsed ?d))) = 1"
    using ws_at_most_one_reply
        [where key = "Some ''key''" and net = ?net and model = ?model and fs = "\<lambda>p. None"
           and tmp = "''/tmp/t.mp4''" and payload = "Parsed ?d",
         THEN conjunct2, THEN conjunct2, THEN conjunct2, THEN conjunct1]
    by simp
  have ping: "length (fst (ws_on_message (Some ''key'') (\<lambda>url. FetchPending) ?model
        (\<lambda>p. None) ''/tmp/t.mp4'' (Parsed ?ping))) = 1"
    using ws_at_most_one_reply
        [where key = "Some ''key''" and net = "\<lambda>url. FetchPending" and model = ?model
           and fs = "\<lambda>p. None" and tmp = "''/tmp/t.mp4''" and payload = "Parsed ?ping",
         THEN conjunct2, THEN conjunct2, THEN conjunct1]
    by simp
  show ?thesis by (rule conjI [OF run conjI [OF one ping]])
qed

text \<open>
  C9 as stated fails for a \<open>call_tool\<close> whose download never ends: the handler awaits
  \<open>downloadFile\<close> without a timeout, so a server that accepts the request and then
  stops sending leaves the frame without any reply (and the bytes received so far in
  the temporary file); the same holds for a \<open>fetch\<close> that stays pending and for a
  provider call that never answers.
\<close>

theorem stalled_call_no_reply_counterexample:
  "ws_on_message (Some ''key'') (\<lambda>url. Response True ''OK'' (Stalled ''abc''))
       (\<lambda>n q v. Settled (Inr ''fine'')) (\<lambda>p. None) ''/tmp/t.mp4''
       (Parsed \<lparr>data_type = Some ''call_tool'', data_tool = Some ''analyze_video_url'',
                data_arguments = ArgsFields [''video_url'' \<mapsto> ''https://example.com/clip.mp4''],
                data_id = Some 7\<rparr>) =
     ([], [''/tmp/t.mp4'' \<mapsto> \<lparr>fsize = length ''abc'', fdata = ''abc''\<rparr>]) \<and>
   fst (ws_on_message (Some ''key'') (\<lambda>url. FetchPending)
       (\<lambda>n q v. Settled (Inr ''fine'')) (\<lambda>p. None) ''/tmp/t.mp4''
       (Parsed \<lparr>data_type = Some ''call_tool'', data_tool = Some ''analyze_video_url'',
                data_arguments = ArgsFields [''video_url'' \<mapsto> ''https://example.com/clip.mp4''],
                data_id = Some 7\<rparr>)) = [] \<and>
   fst (ws_on_message (Some ''key'') (\<lambda>url. FetchRejected ''offline'')
       (\<lambda>n q v. Never) [''/videos/clip.mp4'' \<mapsto> \<lparr>fsize = 3, fdata = ''abc''\<rparr>] ''/tmp/t.mp4''
       (Parsed \<lparr>data_type = Some ''call_tool'', data_tool = Some ''analyze_video_file'',
                data_arguments = ArgsFields [''file_path'' \<mapsto> ''/videos/clip.mp4''],
                data_id = Some 8\<rparr>)) = []"
proof -
  have stalled: "ws_on_message (Some ''key'') (\<lambda>url. Response True ''OK'' (Stalled ''abc''))
       (\<lambda>n q v. Settled (Inr ''fine'')) (\<lambda>p. None) ''/tmp/t.mp4''
       (Parsed \<lparr>data_type = Some ''call_tool'', data_tool = Some ''analyze_video_url'',
                data_arguments = ArgsFields [''video_url'' \<mapsto> ''https://example.com/clip.mp4''],
                data_id = Some 7\<rparr>) =
     ([], [''/tmp/t.mp4'' \<mapsto> \<lparr>fsize = length ''abc'', fdata = ''abc''\<rparr>])"
    by (simp add: ws_on_message_def ws_tool_switch_def remote_url_block_def downloadFile_def)
  have pending: "fst (ws_on_message (Some ''key'') (\<lambda>url. FetchPending)
       (\<lambda>n q v. Settled (Inr ''fine'')) (\<lambda>p. None) ''/tmp/t.mp4''
       (Parsed \<lparr>data_type = Some ''call_tool'', data_tool = Some ''analyze_video_url'',
                data_arguments = ArgsFields [''video_url'' \<mapsto> ''https://example.com/clip.mp4''],
                data_id = Some 7\<rparr>)) = []"
    by (simp add: ws_on_message_def ws_tool_switch_def remote_url_block_def downloadFile_def)
  have silent: "fst (ws_on_message (Some ''key'') (\<lambda>url. FetchRejected ''offline'')
       (\<lambda>n q v. Never) [''/videos/clip.mp4'' \<mapsto> \<lparr>fsize = 3, fdata = ''abc''\<rparr>] ''/tmp/t.mp4''
       (Parsed \<lparr>data_type = Some ''call_tool'', data_tool = Some ''analyze_video_file'',
                data_arguments = ArgsFields [''file_path'' \<mapsto> ''/videos/clip.mp4''],
                data_id = Some 8\<rparr>)) = []"
    by (simp add: ws_on_message_def ws_tool_switch_def remote_analyzeVideo_arg_def
        remote_analyzeVideo_def engine_defs path_defs defaultPrompts_def)
  show ?thesis by (rule conjI [OF stalled conjI [OF pending silent]])
qed

section \<open>C10: empty prompt\<close>

text \<open>
  C10. An empty analysis prompt is treated as absent: the call behaves exactly as the
  call without a prompt, the selected list is the five defaults, no provider call is
  ever issued with the empty prompt, and when the analysis runs and the provider
  answers, five results are returned.
\<close>

theorem empty_prompt_uses_defaults:
  "remote_analyzeVideo key fs model p (Some []) = remote_analyzeVideo key fs model p None \<and>
   mcp_analyzeVideo key fs model p (Some []) = mcp_analyzeVideo key fs model p None \<and>
   select_prompts defaultPrompts (Some []) = defaultPrompts \<and>
   length defaultPrompts = 5 \<and>
   [] \<notin> set (snd (remote_analyzeVideo key fs model p (Some []))) \<and>
   [] \<notin> set (snd (mcp_analyzeVideo key fs model p (Some []))) \<and>
   (truthy key \<longrightarrow> fs p = Some f \<longrightarrow>
    (\<forall>i part. i < 5 \<longrightarrow> model i (defaultPrompts ! i) part = Settled (Inr (t i))) \<longrightarrow>
      (validateVideoFile fs p = Inr m \<longrightarrow>
         remote_analyzeVideo key fs model p (Some []) =
           (Settled (Inr \<lparr>success = True,
                 results = Some (map (\<lambda>i. \<lparr>prompt = defaultPrompts ! i, analysis = t i\<rparr>) [0..<5]),
                 error = None\<rparr>), defaultPrompts)) \<and>
      mcp_analyzeVideo key fs model p (Some []) =
        (Settled (Inr \<lparr>success = True,
              results = Some (map (\<lambda>i. \<lparr>prompt = defaultPrompts ! i, analysis = t i\<rparr>) [0..<5]),
              error = None\<rparr>), defaultPrompts))"
proof -
  let ?ok = "\<lparr>success = True,
      results = Some (map (\<lambda>i. \<lparr>prompt = defaultPrompts ! i, analysis = t i\<rparr>) [0..<5]),
      error = None\<rparr>"
  have body: "analysis_body defaultPrompts fs model p m' (Some []) =
      analysis_body defaultPrompts fs model p m' None" for m'
    unfolding analysis_body_def select_prompts_absent by (rule refl)
  have remote_eq: "remote_analyzeVideo key fs model p (Some []) =
      remote_analyzeVideo key fs model p None"
    unfolding remote_analyzeVideo_def body by (rule refl)
  have mcp_eq: "mcp_analyzeVideo key fs model p (Some []) = mcp_analyzeVideo key fs model p None"
    unfolding mcp_analyzeVideo_def body by (rule refl)
  have calls: "[] \<notin> set (snd (analysis_body defaultPrompts fs model p m' (Some [])))" for m'
    using analysis_body_calls [of defaultPrompts fs model p m' "Some []"]
      defaultPrompts_no_empty
    by (auto simp: select_prompts_absent)
  have remote_calls: "[] \<notin> set (snd (remote_analyzeVideo key fs model p (Some [])))"
    by (auto simp: remote_analyzeVideo_def returned_snd calls split: sum.splits)
  have mcp_calls: "[] \<notin> set (snd (mcp_analyzeVideo key fs model p (Some [])))"
    by (auto simp: mcp_analyzeVideo_def returned_snd calls)
  have five: "truthy key \<longrightarrow> fs p = Some f \<longrightarrow>
    (\<forall>i part. i < 5 \<longrightarrow> model i (defaultPrompts ! i) part = Settled (Inr (t i))) \<longrightarrow>
      (validateVideoFile fs p = Inr m \<longrightarrow>
         remote_analyzeVideo key fs model p (Some []) = (Settled (Inr ?ok), defaultPrompts)) \<and>
      mcp_analyzeVideo key fs model p (Some []) = (Settled (Inr ?ok), defaultPrompts)"
  proof (intro impI)
    assume key: "truthy key" and on_disk: "fs p = Some f"
      and answers: "\<forall>i part. i < 5 \<longrightarrow> model i (defaultPrompts ! i) part = Settled (Inr (t i))"
    have ok: "analysis_body defaultPrompts fs model p m' (Some []) = (Settled ?ok, defaultPrompts)" for m'
      using analysis_body_success
          [where fs = fs and p = p and f = f and t = t and model = model
             and defaults = defaultPrompts and ap = "Some []" and m = m']
        on_disk answers
      by (simp add: select_prompts_absent defaultPrompts_length)
    have mcp: "mcp_analyzeVideo key fs model p (Some []) = (Settled (Inr ?ok), defaultPrompts)"
      using mcp_analyzeVideo_body [of key fs model p "Some []"] key ok [of "mime_switch p"]
      by (simp add: returned_simps)
    have remote: "validateVideoFile fs p = Inr m \<longrightarrow>
        remote_analyzeVideo key fs model p (Some []) = (Settled (Inr ?ok), defaultPrompts)"
      using remote_analyzeVideo_valid [of key fs p m model "Some []"] key ok [of m]
      by (simp add: returned_simps)
    show "(validateVideoFile fs p = Inr m \<longrightarrow>
         remote_analyzeVideo key fs model p (Some []) = (Settled (Inr ?ok), defaultPrompts)) \<and>
      mcp_analyzeVideo key fs model p (Some []) = (Settled (Inr ?ok), defaultPrompts)"
      using remote mcp by (rule conjI)
  qed
  show ?thesis
    by (rule conjI [OF remote_eq conjI [OF mcp_eq conjI [OF select_prompts_absent(2)
          conjI [OF defaultPrompts_length conjI [OF remote_calls conjI [OF mcp_calls five]]]]]])
qed

theorem empty_prompt_uses_defaults_witness:
  "remote_analyzeVideo (Some ''key'') [''/tmp/clip.mp4'' \<mapsto> \<lparr>fsize = 3, fdata = ''abc''\<rparr>]
       (\<lambda>n q v. Settled (Inr ''fine'')) ''/tmp/clip.mp4'' (Some []) =
     (Settled (Inr \<lparr>success = True,
           results = Some (map (\<lambda>i. \<lparr>prompt = defaultPrompts ! i, analysis = ''fine''\<rparr>) [0..<5]),
           error = None\<rparr>), defaultPrompts) \<and>
   length (map (\<lambda>i. \<lparr>prompt = defaultPrompts ! i, analysis = ''fine''\<rparr>) [0..<5]) = 5"
proof -
  let ?fs = "[''/tmp/clip.mp4'' \<mapsto> \<lparr>fsize = 3, fdata = ''abc''\<rparr>]"
  have key: "truthy (Some ''key'')" by (simp add: truthy_def)
  have on_disk: "?fs ''/tmp/clip.mp4'' = Some \<lparr>fsize = 3, fdata = ''abc''\<rparr>" by simp
  have run: "remote_analyzeVideo (Some ''key'') ?fs (\<lambda>n q v. Settled (Inr ''fine'')) ''/tmp/clip.mp4'' (Some []) =
     (Settled (Inr \<lparr>success = True,
           results = Some (map (\<lambda>i. \<lparr>prompt = defaultPrompts ! i, analysis = ''fine''\<rparr>) [0..<5]),
           error = None\<rparr>), defaultPrompts)"
    using empty_prompt_uses_defaults
        [where key = "Some ''key''" and fs = ?fs and p = "''/tmp/clip.mp4''"
           and f = "\<lparr>fsize = 3, fdata = ''abc''\<rparr>"
           and model = "\<lambda>n q v. Settled (Inr ''fine'')" and t = "\<lambda>i. ''fine''" and m = "''video/mp4''",
         THEN conjunct2, THEN conjunct2, THEN conjunct2, THEN conjunct2, THEN conjunct2,
         THEN conjunct2]
      key on_disk sample_clip_valid
    by simp
  show ?thesis using run by simp
qed

end
